theory Spec2Isabelle
  imports Complex_Main
begin

section \<open>Option values and the variables map\<close>

text \<open>
  The argument reader of OpenSkyNetArgs.cpp keeps every parsed option in the
  Boost variables map \<^verbatim>\<open>vm_\<close>: a dictionary from option names to typed values.
  The value types are the ones the option descriptions of the constructor
  declare (lines 99-192 of the source).  An option declared without a value
  (\<^verbatim>\<open>producer-info\<close>, \<^verbatim>\<open>cpu\<close>, \<^verbatim>\<open>pyramid\<close>, \<^verbatim>\<open>quiet\<close>, ...) is stored as \<open>VFlag\<close>.
  The C++ \<^verbatim>\<open>float\<close> values are only stored and compared by the code modelled
  here, never computed with; they are modelled as real numbers.
\<close>

datatype opt_value =
    VFlag
  | VStr string
  | VInt int
  | VFloat real
  | VFloats "real list"
  | VStrs "string list"
  | VPoint int int
  | VSize int int
  | VRect2d real real real real

text \<open>
  A stored value carries the flag \<^verbatim>\<open>defaulted\<close>: it is true when the value comes
  from the \<^verbatim>\<open>default_value\<close> of the option description and not from a source.
\<close>

record variable_value =
  val :: opt_value
  defaulted :: bool

type_synonym variables_map = "string \<rightharpoonup> variable_value"

text \<open>The options one source (command line, environment, one file) has set.\<close>

type_synonym parsed_options = "string \<rightharpoonup> opt_value"

section \<open>Errors\<close>

text \<open>
  Every \<^verbatim>\<open>DG_ERROR_THROW\<close> and \<^verbatim>\<open>DG_CHECK\<close> of the source is one constructor, named
  after its message.  \<open>BadAnyCast\<close> is what \<^verbatim>\<open>as<T>()\<close> throws on a value of another
  type; \<open>CommandLineError\<close>, \<open>EnvironmentError\<close> and \<open>ConfigFileError\<close> stand for the
  exceptions of the three Boost parsers (an unknown option, an unreadable file).
\<close>

datatype osn_error =
    MustHaveArgument
  | ActionMustBeSpecified
  | InvalidAction
  | InvalidService string
  | InvalidHelpTopic
  | InvalidArgument string
  | NoInputSpecified
  | MissingRequiredParameter string
  | BboxRequiredForWebServices
  | InvalidOutputFormat string
  | InvalidGeometryType string
  | LogPathMustBeSpecified
  | InvalidLogLevel string
  | ErrorOpeningLogFile string
  | CommandLineError
  | EnvironmentError
  | ConfigFileError string
  | BadAnyCast

section \<open>The argument record\<close>

datatype Action = UNKNOWN | HELP | DETECT | LANDCOVER

datatype Source = LOCAL | DGCS | EVWHS | MAPS_API

datatype GeometryType = POINT | POLYGON

datatype level_t = trace | debug | info | warning | error | fatal

text \<open>
  The public members of \<^verbatim>\<open>OpenSkyNetArgs\<close> that the source assigns, and the state
  of the logging sinks (\<^verbatim>\<open>coutSink_\<close>, \<^verbatim>\<open>cerrSink_\<close> and the file sinks added by
  \<^verbatim>\<open>readLoggingArgs\<close>, each with its lowest and highest level) and the messages
  logged as warnings.  The pointer members \<^verbatim>\<open>bbox\<close>, \<^verbatim>\<open>windowSize\<close> and
  \<^verbatim>\<open>stepSize\<close> are \<^verbatim>\<open>unique_ptr\<close>s: \<open>None\<close> is the null pointer.
\<close>

record OpenSkyNetArgs =
  action :: Action
  bbox :: "(real \<times> real \<times> real \<times> real) option"
  source :: Source
  image_path :: string
  mapId :: string
  token :: string
  credentials :: string
  zoom :: int
  maxConnections :: int
  outputFormat :: string
  outputPath :: string
  layerName :: string
  geometryType :: GeometryType
  producerInfo :: bool
  useCpu :: bool
  maxUtitilization :: real
  modelPath :: string
  windowSize :: "(int \<times> int) option"
  confidence :: real
  stepSize :: "(int \<times> int) option"
  pyramid :: bool
  nms :: bool
  overlap :: real
  quiet :: bool
  coutSink :: "(level_t \<times> level_t) option"
  cerrSink :: "(level_t \<times> level_t) option"
  fileSinks :: "(string \<times> level_t \<times> level_t) list"
  warnings :: "string list"

text \<open>
  What the reader takes from outside the source file: library functions
  (Boost.Filesystem, the DeepCore logging and feature-set libraries), two
  declarations of the header OpenSkyNetArgs.h (the constant \<^verbatim>\<open>MAPSAPI_MAPID\<close> and
  the default of the parameter \<^verbatim>\<open>splitArgs\<close>), the console, the process
  environment and the file system.  They are parameters of the model; a parser
  that throws returns \<open>None\<close>, \<^verbatim>\<open>stringToLevel\<close> on an unknown level too, and
  \<^verbatim>\<open>ofstream_ok path\<close> is \<^verbatim>\<open>!ofs->fail()\<close> after opening \<^verbatim>\<open>path\<close>.
\<close>

record externals =
  supportedFormats :: "string list"
  MAPSAPI_MAPID :: string
  splitArgs_default :: bool
  path_stem :: "string \<Rightarrow> string"
  path_filename :: "string \<Rightarrow> string"
  stringToLevel :: "string \<Rightarrow> level_t option"
  ofstream_ok :: "string \<Rightarrow> bool"
  readMaskedInputFromConsole :: string
  parse_environment :: "parsed_options option"
  parse_config_file :: "string \<Rightarrow> parsed_options option"

section \<open>Strings\<close>

text \<open>
  \<^verbatim>\<open>boost::to_lower\<close> in the default locale: the letters \<^verbatim>\<open>A\<close> to \<^verbatim>\<open>Z\<close> move to
  \<^verbatim>\<open>a\<close> to \<^verbatim>\<open>z\<close>, every other byte stays.
\<close>

definition to_lower_char :: "char \<Rightarrow> char" where
  "to_lower_char c =
     (case map_of (zip ''ABCDEFGHIJKLMNOPQRSTUVWXYZ'' ''abcdefghijklmnopqrstuvwxyz'') c of
        Some l \<Rightarrow> l
      | None \<Rightarrow> c)"

definition to_lower :: "string \<Rightarrow> string" where
  "to_lower s = map to_lower_char s"

definition iequals :: "string \<Rightarrow> string \<Rightarrow> bool" where
  "iequals s t = (to_lower s = to_lower t)"

section \<open>Reading the variables map\<close>

text \<open>Sequencing of calls that may throw: the first exception ends the function.\<close>

definition bindE :: "osn_error + 'a \<Rightarrow> ('a \<Rightarrow> osn_error + 'b) \<Rightarrow> osn_error + 'b" where
  "bindE m f = (case m of Inl e \<Rightarrow> Inl e | Inr x \<Rightarrow> f x)"

text \<open>The typed reads \<^verbatim>\<open>it->second.as<T>()\<close>.\<close>

fun as_string :: "opt_value \<Rightarrow> osn_error + string" where
  "as_string (VStr s) = Inr s"
| "as_string _ = Inl BadAnyCast"

fun as_int :: "opt_value \<Rightarrow> osn_error + int" where
  "as_int (VInt i) = Inr i"
| "as_int _ = Inl BadAnyCast"

fun as_float :: "opt_value \<Rightarrow> osn_error + real" where
  "as_float (VFloat x) = Inr x"
| "as_float _ = Inl BadAnyCast"

fun as_floats :: "opt_value \<Rightarrow> osn_error + real list" where
  "as_floats (VFloats xs) = Inr xs"
| "as_floats _ = Inl BadAnyCast"

fun as_strings :: "opt_value \<Rightarrow> osn_error + string list" where
  "as_strings (VStrs xs) = Inr xs"
| "as_strings _ = Inl BadAnyCast"

fun as_cvPoint :: "opt_value \<Rightarrow> osn_error + (int \<times> int)" where
  "as_cvPoint (VPoint x y) = Inr (x, y)"
| "as_cvPoint _ = Inl BadAnyCast"

fun as_cvSize :: "opt_value \<Rightarrow> osn_error + (int \<times> int)" where
  "as_cvSize (VSize w h) = Inr (w, h)"
| "as_cvSize _ = Inl BadAnyCast"

fun as_cvRect2d :: "opt_value \<Rightarrow> osn_error + (real \<times> real \<times> real \<times> real)" where
  "as_cvRect2d (VRect2d w s e n) = Inr (w, s, e, n)"
| "as_cvRect2d _ = Inl BadAnyCast"

text \<open>
  \<^verbatim>\<open>readOptional(param, ret)\<close>: the value when the option is in the map (the
  caller then assigns it), \<open>None\<close> when it is not (the caller's variable keeps
  its value and the C++ function returns false).  The pointer-returning overload
  has the same shape: \<open>None\<close> is the null \<^verbatim>\<open>unique_ptr\<close>.
\<close>

definition readOptional ::
  "(opt_value \<Rightarrow> osn_error + 'a) \<Rightarrow> variables_map \<Rightarrow> string \<Rightarrow> osn_error + 'a option" where
  "readOptional as_T vm param =
     (case vm param of
        None \<Rightarrow> Inr None
      | Some v \<Rightarrow> bindE (as_T (val v)) (\<lambda>x. Inr (Some x)))"

text \<open>
  \<^verbatim>\<open>split(subArgs, arg, is_any_of(" "), token_compress_on)\<close>: the pieces between
  runs of spaces; a leading or trailing run leaves an empty piece at that end.
  \<open>insep\<close> says that the character before was a space.
\<close>

fun split_compress :: "bool \<Rightarrow> string \<Rightarrow> string \<Rightarrow> string list" where
  "split_compress insep cur [] = [rev cur]"
| "split_compress insep cur (c # cs) =
     (if c = CHR '' '' then
        (if insep then split_compress True cur cs
         else rev cur # split_compress True [] cs)
      else split_compress False (c # cur) cs)"

text \<open>
  The overload of \<^verbatim>\<open>readOptional\<close> for string vectors (lines 260-280).  Its two
  callers pass no \<^verbatim>\<open>splitArgs\<close>; they get the default that the header declares
  (without a default the call is the template above, which is the case
  \<open>splitArgs = False\<close>).
\<close>

definition readOptionalStrings ::
  "variables_map \<Rightarrow> string \<Rightarrow> bool \<Rightarrow> osn_error + string list option" where
  "readOptionalStrings vm param splitArgs =
     (case vm param of
        None \<Rightarrow> Inr None
      | Some v \<Rightarrow>
          bindE (as_strings (val v)) (\<lambda>args.
            if splitArgs then Inr (Some (concat (map (split_compress False []) args)))
            else Inr (Some args)))"

text \<open>
  \<^verbatim>\<open>readRequired<T>(param, errorMsg)\<close>: throws \<open>errorMsg\<close> when one is given and
  "Missing required parameter" otherwise.  (Printing the usage is not modelled.)
\<close>

definition readRequired ::
  "(opt_value \<Rightarrow> osn_error + 'a) \<Rightarrow> variables_map \<Rightarrow> string \<Rightarrow> osn_error option \<Rightarrow> osn_error + 'a" where
  "readRequired as_T vm param errorMsg =
     (case vm param of
        None \<Rightarrow> (case errorMsg of Some e \<Rightarrow> Inl e | None \<Rightarrow> Inl (MissingRequiredParameter param))
      | Some v \<Rightarrow> as_T (val v))"

text \<open>\<^verbatim>\<open>vm_.find(param) != end(vm_)\<close>\<close>

definition present :: "variables_map \<Rightarrow> string \<Rightarrow> bool" where
  "present vm param = (vm param \<noteq> None)"

section \<open>The readers of the option groups\<close>

text \<open>
  Lines 482-512.  The format is read into \<^verbatim>\<open>outputFormat\<close> when present and
  lowered; the output path is required; for \<^verbatim>\<open>shp\<close> the layer name is
  \<^verbatim>\<open>path(outputPath).stem().filename()\<close> and a supplied layer is warned about; the
  geometry type string starts as \<^verbatim>\<open>polygon\<close>.
\<close>

definition readOutputArgs ::
  "externals \<Rightarrow> variables_map \<Rightarrow> OpenSkyNetArgs \<Rightarrow> osn_error + OpenSkyNetArgs" where
  "readOutputArgs ext vm a =
     bindE (readOptional as_string vm ''format'') (\<lambda>fmt.
     let a1 = a\<lparr>outputFormat := to_lower (case fmt of Some f \<Rightarrow> f | None \<Rightarrow> outputFormat a)\<rparr> in
     bindE (readRequired as_string vm ''output'' None) (\<lambda>out.
     let a2 = a1\<lparr>outputPath := out\<rparr> in
     bindE (readOptional as_string vm ''output-layer'') (\<lambda>layer.
     let layerSpecified = (layer \<noteq> None);
         a3 = (case layer of Some l \<Rightarrow> a2\<lparr>layerName := l\<rparr> | None \<Rightarrow> a2);
         a4 = (if outputFormat a3 = ''shp'' then
                 (let a3w = (if layerSpecified
                             then a3\<lparr>warnings := warnings a3 @
                                    [''output-layer argument is ignored for Shapefile output.'']\<rparr>
                             else a3)
                  in a3w\<lparr>layerName := path_filename ext (path_stem ext (outputPath a3w))\<rparr>)
               else if \<not> layerSpecified then a3\<lparr>layerName := ''skynetdetects''\<rparr>
               else a3)
     in
     bindE (readOptional as_string vm ''type'') (\<lambda>ty.
     let typeStr = to_lower (case ty of Some t \<Rightarrow> t | None \<Rightarrow> ''polygon'') in
     bindE (if typeStr = ''polygon'' then Inr (a4\<lparr>geometryType := POLYGON\<rparr>)
            else if typeStr = ''point'' then Inr (a4\<lparr>geometryType := POINT\<rparr>)
            else Inl (InvalidGeometryType typeStr)) (\<lambda>a5.
     Inr (a5\<lparr>producerInfo := present vm ''producer-info''\<rparr>))))))"

text \<open>Lines 514-520.\<close>

definition readProcessingArgs ::
  "variables_map \<Rightarrow> OpenSkyNetArgs \<Rightarrow> osn_error + OpenSkyNetArgs" where
  "readProcessingArgs vm a =
     (let a1 = a\<lparr>useCpu := present vm ''cpu''\<rparr> in
      bindE (readOptional as_float vm ''max-utilization'') (\<lambda>mu.
      let a2 = (case mu of Some u \<Rightarrow> a1\<lparr>maxUtitilization := u\<rparr> | None \<Rightarrow> a1) in
      bindE (readRequired as_string vm ''model'' None) (\<lambda>m.
      let a3 = a2\<lparr>modelPath := m\<rparr> in
      bindE (readOptional as_cvSize vm ''window-size'') (\<lambda>ws.
      Inr (a3\<lparr>windowSize := ws\<rparr>)))))"

text \<open>
  Lines 522-536.  No value that is read here is checked against a range: the
  function throws only when a stored value has another type than the one read.
\<close>

definition readFeatureDetectionArgs ::
  "variables_map \<Rightarrow> OpenSkyNetArgs \<Rightarrow> osn_error + OpenSkyNetArgs" where
  "readFeatureDetectionArgs vm a =
     bindE (readOptional as_float vm ''confidence'') (\<lambda>c.
     let a1 = (case c of Some x \<Rightarrow> a\<lparr>confidence := x\<rparr> | None \<Rightarrow> a) in
     bindE (readOptional as_cvPoint vm ''step-size'') (\<lambda>st.
     let a2 = a1\<lparr>stepSize := st\<rparr>;
         a3 = a2\<lparr>pyramid := present vm ''pyramid''\<rparr> in
     if present vm ''nms'' then
       (let a4 = a3\<lparr>nms := True\<rparr> in
        bindE (readOptional as_floats vm ''nms'') (\<lambda>r.
        let args = (case r of Some xs \<Rightarrow> xs | None \<Rightarrow> []) in
        case args of
          [] \<Rightarrow> Inr a4
        | x # _ \<Rightarrow> Inr (a4\<lparr>overlap := x\<rparr>)))
     else Inr a3))"

text \<open>
  Lines 538-566.  \<^verbatim>\<open>removeSink\<close> followed by \<^verbatim>\<open>addCoutSink\<close> replaces the console
  sink; a log file becomes a file sink from its level up to \<open>fatal\<close>.
\<close>

definition readLoggingArgs ::
  "externals \<Rightarrow> variables_map \<Rightarrow> OpenSkyNetArgs \<Rightarrow> osn_error + OpenSkyNetArgs" where
  "readLoggingArgs ext vm a =
     (let a1 = (if present vm ''trace'' then a\<lparr>coutSink := Some (trace, info)\<rparr>
                else if present vm ''debug'' then a\<lparr>coutSink := Some (debug, info)\<rparr>
                else a) in
      bindE (readOptionalStrings vm ''log'' (splitArgs_default ext)) (\<lambda>r.
      case r of
        None \<Rightarrow> Inr a1
      | Some logArgs \<Rightarrow>
          bindE (case logArgs of
                   [] \<Rightarrow> Inl LogPathMustBeSpecified
                 | [p] \<Rightarrow> Inr (debug, p)
                 | l # p # _ \<Rightarrow>
                     (case stringToLevel ext l of
                        None \<Rightarrow> Inl (InvalidLogLevel l)
                      | Some lv \<Rightarrow> Inr (lv, p))) (\<lambda>(lv, p).
          if ofstream_ok ext p
          then Inr (a1\<lparr>fileSinks := fileSinks a1 @ [(p, lv, fatal)]\<rparr>)
          else Inl (ErrorOpeningLogFile p))))"

text \<open>Lines 342-368.\<close>

definition parseAction :: "string \<Rightarrow> Action" where
  "parseAction str =
     (let s = to_lower str in
      if s = ''help'' then HELP
      else if s = ''detect'' then DETECT
      else if s = ''landcover'' then LANDCOVER
      else UNKNOWN)"

definition parseService :: "string \<Rightarrow> osn_error + Source" where
  "parseService service =
     (let s = to_lower service in
      if s = ''dgcs'' then Inr DGCS
      else if s = ''evwhs'' then Inr EVWHS
      else if s = ''maps-api'' then Inr MAPS_API
      else Inl (InvalidService s))"

text \<open>
  Lines 457-480.  The check of the bounding box is the first statement; the
  password read from the console is appended when the credentials have no colon.
\<close>

definition promptForPassword :: "externals \<Rightarrow> OpenSkyNetArgs \<Rightarrow> OpenSkyNetArgs" where
  "promptForPassword ext a =
     a\<lparr>credentials := credentials a @ '':'' @ readMaskedInputFromConsole ext\<rparr>"

definition readWebServiceArgs ::
  "externals \<Rightarrow> variables_map \<Rightarrow> OpenSkyNetArgs \<Rightarrow> osn_error + OpenSkyNetArgs" where
  "readWebServiceArgs ext vm a =
     (if bbox a = None then Inl BboxRequiredForWebServices
      else
        bindE (if source a = MAPS_API
               then bindE (readOptional as_string vm ''mapId'') (\<lambda>m.
                      Inr (case m of Some x \<Rightarrow> a\<lparr>mapId := x\<rparr> | None \<Rightarrow> a))
               else Inr a) (\<lambda>a1.
        bindE (readRequired as_string vm ''token'' None) (\<lambda>t.
        let a2 = a1\<lparr>token := t\<rparr> in
        bindE (readOptional as_string vm ''credentials'') (\<lambda>cr.
        let a3 = (case cr of
                    Some c \<Rightarrow>
                      (let a2c = a2\<lparr>credentials := c\<rparr> in
                       if CHR '':'' \<notin> set c then promptForPassword ext a2c else a2c)
                  | None \<Rightarrow> a2) in
        bindE (readOptional as_int vm ''zoom'') (\<lambda>z.
        let a4 = (case z of Some x \<Rightarrow> a3\<lparr>zoom := x\<rparr> | None \<Rightarrow> a3) in
        bindE (readOptional as_int vm ''num-downloads'') (\<lambda>n.
        Inr (case n of Some x \<Rightarrow> a4\<lparr>maxConnections := x\<rparr> | None \<Rightarrow> a4)))))))"

section \<open>readArgs\<close>

text \<open>
  Lines 424-455.  The last two statements construct \<^verbatim>\<open>OpenSkyNet\<close> from the
  arguments and call \<^verbatim>\<open>process()\<close>; that class is not part of the file, so the run
  is the parameter \<open>run\<close>.  \<open>readArgsOnly\<close> is the function up to that point.
\<close>

definition readArgsOnly ::
  "externals \<Rightarrow> variables_map \<Rightarrow> OpenSkyNetArgs \<Rightarrow> osn_error + OpenSkyNetArgs" where
  "readArgsOnly ext vm a =
     bindE (readOptional as_cvRect2d vm ''bbox'') (\<lambda>b.
     let a1 = a\<lparr>bbox := b\<rparr> in
     bindE (readOptional as_string vm ''service'') (\<lambda>sv.
     bindE (case sv of
              Some service \<Rightarrow>
                bindE (parseService service) (\<lambda>src.
                readWebServiceArgs ext vm (a1\<lparr>source := src\<rparr>))
            | None \<Rightarrow>
                bindE (readRequired as_string vm ''image'' (Some NoInputSpecified)) (\<lambda>img.
                Inr (a1\<lparr>image_path := img, source := LOCAL\<rparr>))) (\<lambda>a2.
     bindE (readProcessingArgs vm a2) (\<lambda>a3.
     bindE (readOutputArgs ext vm a3) (\<lambda>a4.
     bindE (readFeatureDetectionArgs vm a4) (\<lambda>a5.
     bindE (readLoggingArgs ext vm a5) (\<lambda>a6.
     Inr (if present vm ''quiet''
          then (let a7 = a6\<lparr>coutSink := None\<rparr>;
                    a8 = (if present vm ''log'' then a7\<lparr>cerrSink := None\<rparr> else a7)
                in a8\<lparr>quiet := True\<rparr>)
          else a6))))))))"

definition readArgs ::
  "externals \<Rightarrow> (OpenSkyNetArgs \<Rightarrow> osn_error + 'r) \<Rightarrow> variables_map \<Rightarrow> OpenSkyNetArgs \<Rightarrow>
   osn_error + 'r" where
  "readArgs ext run vm a = bindE (readArgsOnly ext vm a) run"

section \<open>parseArgs\<close>

text \<open>
  The defaults that the option descriptions of the constructor declare with
  \<^verbatim>\<open>default_value\<close> (lines 112-149); \<open>a\<close> is the argument object at construction,
  whose members \<^verbatim>\<open>zoom\<close>, \<^verbatim>\<open>maxConnections\<close>, \<^verbatim>\<open>maxUtitilization\<close> and \<^verbatim>\<open>confidence\<close>
  give four of them.
\<close>

definition option_defaults :: "externals \<Rightarrow> OpenSkyNetArgs \<Rightarrow> parsed_options" where
  "option_defaults ext a =
     map_of [(''zoom'', VInt (zoom a)),
             (''mapId'', VStr (MAPSAPI_MAPID ext)),
             (''num-downloads'', VInt (maxConnections a)),
             (''format'', VStr ''shp''),
             (''type'', VStr ''polygon''),
             (''max-utilization'', VFloat (maxUtitilization a)),
             (''confidence'', VFloat (confidence a))]"

text \<open>
  \<^verbatim>\<open>po::store(parsed, vm_)\<close> of Boost.Program_options, as the comment of lines
  326-327 relies on it (\<^verbatim>\<open>parse_config_file will not override existing options\<close>):
  an explicit value that an earlier call stored is final; an option that is
  missing or holds its default takes the explicit value of this call; at the
  end, an option that is still missing and has a default gets it, marked
  \<^verbatim>\<open>defaulted\<close>.  One source holds one value for an option.
\<close>

definition store :: "parsed_options \<Rightarrow> parsed_options \<Rightarrow> variables_map \<Rightarrow> variables_map" where
  "store dflt opts vm =
     (\<lambda>k. case vm k of
             Some v \<Rightarrow>
               (if defaulted v
                then (case opts k of
                        Some x \<Rightarrow> Some \<lparr>val = x, defaulted = False\<rparr>
                      | None \<Rightarrow> Some v)
                else Some v)
           | None \<Rightarrow>
               (case opts k of
                  Some x \<Rightarrow> Some \<lparr>val = x, defaulted = False\<rparr>
                | None \<Rightarrow>
                    (case dflt k of
                       Some d \<Rightarrow> Some \<lparr>val = d, defaulted = True\<rparr>
                     | None \<Rightarrow> None)))"

text \<open>
  \<^verbatim>\<open>po::notify(vm_)\<close> runs the notifier of the stored options; the only one is
  \<^verbatim>\<open>formatNotifier\<close> (lines 121-124) on the option \<^verbatim>\<open>format\<close>.
\<close>

definition notify :: "externals \<Rightarrow> variables_map \<Rightarrow> osn_error + unit" where
  "notify ext vm =
     (case vm ''format'' of
        None \<Rightarrow> Inr ()
      | Some v \<Rightarrow>
          bindE (as_string (val v)) (\<lambda>format.
          if to_lower format \<in> set (supportedFormats ext) then Inr ()
          else Inl (InvalidOutputFormat format)))"

text \<open>
  The loop of lines 328-331 over the configuration files; the caller passes the
  list reversed.
\<close>

fun storeConfigFiles ::
  "externals \<Rightarrow> parsed_options \<Rightarrow> string list \<Rightarrow> variables_map \<Rightarrow> osn_error + variables_map" where
  "storeConfigFiles ext dflt [] vm = Inr vm"
| "storeConfigFiles ext dflt (configFile # rest) vm =
     (case parse_config_file ext configFile of
        None \<Rightarrow> Inl (ConfigFileError configFile)
      | Some opts \<Rightarrow>
          (let vm1 = store dflt opts vm in
           bindE (notify ext vm1) (\<lambda>_. storeConfigFiles ext dflt rest vm1)))"

text \<open>
  Lines 301-340.  \<open>argc\<close> is the argument count and \<open>cmdline\<close> what the command
  line parser returns (positional arguments under \<^verbatim>\<open>action\<close> and \<^verbatim>\<open>help-topic\<close>).
  The result is the variables map and the argument object with its action.
  Printing the usage before an exception is not modelled.
\<close>

definition parseArgs ::
  "externals \<Rightarrow> nat \<Rightarrow> parsed_options option \<Rightarrow> OpenSkyNetArgs \<Rightarrow>
   osn_error + (variables_map \<times> OpenSkyNetArgs)" where
  "parseArgs ext argc cmdline a =
     (if argc < 2 then Inl MustHaveArgument
      else
        (let dflt = option_defaults ext a in
         case cmdline of
           None \<Rightarrow> Inl CommandLineError
         | Some cmd \<Rightarrow>
        (let vm1 = store dflt cmd Map.empty in
         bindE (notify ext vm1) (\<lambda>_.
         case parse_environment ext of
           None \<Rightarrow> Inl EnvironmentError
         | Some env \<Rightarrow>
        (let vm2 = store dflt env vm1 in
         bindE (readOptionalStrings vm2 ''config'' (splitArgs_default ext)) (\<lambda>cf.
         bindE (case cf of
                  Some configFiles \<Rightarrow> storeConfigFiles ext dflt (rev configFiles) vm2
                | None \<Rightarrow> Inr vm2) (\<lambda>vm3.
         bindE (readRequired as_string vm3 ''action'' (Some ActionMustBeSpecified)) (\<lambda>act.
         let a1 = a\<lparr>action := parseAction act\<rparr> in
         if action a1 = UNKNOWN then Inl InvalidAction
         else Inr (vm3, a1)))))))))"

text \<open>Lines 370-392; the result says whether help was displayed.\<close>

definition maybeDisplayHelp :: "variables_map \<Rightarrow> OpenSkyNetArgs \<Rightarrow> osn_error + bool" where
  "maybeDisplayHelp vm a =
     bindE (readOptional as_string vm ''help-topic'') (\<lambda>t.
     if action a = HELP then
       (case t of
          Some topicStr \<Rightarrow>
            if parseAction topicStr \<noteq> UNKNOWN then Inr True else Inl InvalidHelpTopic
        | None \<Rightarrow> Inr True)
     else
       (case t of
          Some topicStr \<Rightarrow>
            if iequals topicStr ''help'' then Inr True else Inl (InvalidArgument topicStr)
        | None \<Rightarrow> Inr False))"

text \<open>Lines 226-235.\<close>

definition setupConsoleLogging :: "OpenSkyNetArgs \<Rightarrow> OpenSkyNetArgs" where
  "setupConsoleLogging a = a\<lparr>cerrSink := Some (warning, fatal), coutSink := Some (info, info)\<rparr>"

text \<open>Lines 214-224: \<open>None\<close> is the return after the help display.\<close>

definition parseArgsAndProcess ::
  "externals \<Rightarrow> (OpenSkyNetArgs \<Rightarrow> osn_error + 'r) \<Rightarrow> nat \<Rightarrow> parsed_options option \<Rightarrow>
   OpenSkyNetArgs \<Rightarrow> osn_error + 'r option" where
  "parseArgsAndProcess ext run argc cmdline a =
     (let a0 = setupConsoleLogging a in
      bindE (parseArgs ext argc cmdline a0) (\<lambda>(vm, a1).
      bindE (maybeDisplayHelp vm a1) (\<lambda>shown.
      if shown then Inr None
      else bindE (readArgs ext run vm a1) (\<lambda>r. Inr (Some r)))))"

section \<open>The detection run\<close>

text \<open>
  OpenSpaceNet.h declares \<^verbatim>\<open>process\<close>, \<^verbatim>\<open>addFeature(window, predictions)\<close>,
  \<^verbatim>\<open>createFeatureFields(predictions)\<close> and \<^verbatim>\<open>calcSizes()\<close>; their bodies
  (OpenSpaceNet.cpp) and the non-maximum suppression they call are not among the
  sources.  The definitions of this section are modelled from the specification
  (sections 3, 4.1, 4.4 and 4.5), each marked so.
\<close>

record Rect =
  rx :: int
  ry :: int
  rwidth :: int
  rheight :: int

record Prediction =
  plabel :: string
  pconfidence :: real

datatype Geometry = GPoint "real \<times> real" | GPolygon "(real \<times> real) list"

record producer_metadata =
  tool_name :: string
  tool_version :: string
  operator :: string

record GeoFeature =
  fwindow :: Rect
  fgeometry :: Geometry
  flabel :: string
  fconfidence :: real
  fproducer :: "producer_metadata option"

text \<open>
  Modelled from the spec: the body of \<^verbatim>\<open>calcSizes\<close> is missing.  Section 4.1: the
  step size defaults to the base-two logarithm of the window's largest dimension
  when unspecified; the window size must be positive in both dimensions and the
  step size must be positive, and violating either fails with an
  InvalidConfiguration error before any window is emitted.  The specification
  names no rounding of the logarithm, so the step is a real number here: the
  logarithm itself, or the supplied step as it is.  The result is the window
  size and the step of the finest level (the pyramid levels of \<^verbatim>\<open>SizeSteps\<close> are
  not modelled).
\<close>

datatype config_error = InvalidConfiguration

definition calcSizes ::
  "OpenSkyNetArgs \<Rightarrow> int \<times> int \<Rightarrow> config_error + ((int \<times> int) \<times> (real \<times> real))" where
  "calcSizes a window =
     (let step = (case stepSize a of
                    Some (x, y) \<Rightarrow> (real_of_int x, real_of_int y)
                  | None \<Rightarrow>
                      (let l = log 2 (real_of_int (max (fst window) (snd window))) in (l, l)))
      in if fst window \<le> 0 \<or> snd window \<le> 0 then Inl InvalidConfiguration
         else if fst step \<le> 0 \<or> snd step \<le> 0 then Inl InvalidConfiguration
         else Inr (window, step))"

text \<open>
  Modelled from the spec: the body of \<^verbatim>\<open>createFeatureFields\<close> is missing.  Section
  4.4: confidence and label become feature attributes; when producer-info is
  enabled, the fixed metadata (tool name, version, operator) is attached to
  every feature of the run.  \<open>pm\<close> is that metadata.
\<close>

definition createFeatureFields ::
  "OpenSkyNetArgs \<Rightarrow> producer_metadata \<Rightarrow> Prediction \<Rightarrow> string \<times> real \<times> producer_metadata option" where
  "createFeatureFields a pm p =
     (plabel p, pconfidence p, if producerInfo a then Some pm else None)"

text \<open>
  Modelled from the spec: the aggregation of section 4.4 is missing from the
  sources.  A point is the image of the window's centre under the transform
  \<open>tr\<close>, a polygon the images of its four corners.
\<close>

definition aggregate ::
  "OpenSkyNetArgs \<Rightarrow> (real \<times> real \<Rightarrow> real \<times> real) \<Rightarrow> producer_metadata \<Rightarrow> Rect \<Rightarrow> Prediction \<Rightarrow>
   GeoFeature" where
  "aggregate a tr pm w p =
     (let x = real_of_int (rx w); y = real_of_int (ry w);
          wd = real_of_int (rwidth w); ht = real_of_int (rheight w);
          (l, c, m) = createFeatureFields a pm p
      in \<lparr>fwindow = w,
          fgeometry = (case geometryType a of
                         POINT \<Rightarrow> GPoint (tr (x + wd / 2, y + ht / 2))
                       | POLYGON \<Rightarrow>
                           GPolygon (map tr [(x, y), (x + wd, y), (x + wd, y + ht), (x, y + ht)])),
          flabel = l, fconfidence = c, fproducer = m\<rparr>)"

text \<open>
  Modelled from the spec: the body of \<^verbatim>\<open>addFeature\<close> is missing.  Section 3:
  detections below the configured confidence threshold are discarded before
  entering the feature collection, which is append-only.
\<close>

definition addFeature ::
  "OpenSkyNetArgs \<Rightarrow> (real \<times> real \<Rightarrow> real \<times> real) \<Rightarrow> producer_metadata \<Rightarrow> Rect \<Rightarrow>
   Prediction list \<Rightarrow> GeoFeature list \<Rightarrow> GeoFeature list" where
  "addFeature a tr pm window predictions fc =
     fc @ map (aggregate a tr pm window)
            (filter (\<lambda>p. \<not> pconfidence p < confidence a) predictions)"

subsection \<open>Non-maximum suppression\<close>

text \<open>
  Modelled from the spec: the suppression is missing from the sources.  Section
  4.5: the overlap of two features is the intersection-over-union of their
  window rectangles.  The intersection is the one of \<^verbatim>\<open>cv::Rect\<close> (empty when a
  side is not positive); two rectangles of union area 0 have overlap 0.
\<close>

definition area :: "Rect \<Rightarrow> int" where
  "area r = rwidth r * rheight r"

definition intersection_area :: "Rect \<Rightarrow> Rect \<Rightarrow> int" where
  "intersection_area a b =
     (let x1 = max (rx a) (rx b); y1 = max (ry a) (ry b);
          w = min (rx a + rwidth a) (rx b + rwidth b) - x1;
          h = min (ry a + rheight a) (ry b + rheight b) - y1
      in if w \<le> 0 \<or> h \<le> 0 then 0 else w * h)"

definition iou :: "Rect \<Rightarrow> Rect \<Rightarrow> real" where
  "iou a b =
     (let i = intersection_area a b; u = area a + area b - i
      in if u = 0 then 0 else real_of_int i / real_of_int u)"

text \<open>
  Modelled from the spec: the algorithm of section 4.5.  Take the highest
  remaining candidate, accept it, discard every remaining candidate whose
  overlap with it exceeds the threshold, repeat until no candidate remains.
  The argument is sorted.
\<close>

function nms_greedy :: "real \<Rightarrow> GeoFeature list \<Rightarrow> GeoFeature list" where
  "nms_greedy t [] = []"
| "nms_greedy t (f # fs) =
     f # nms_greedy t (filter (\<lambda>g. \<not> t < iou (fwindow f) (fwindow g)) fs)"
  by pat_completeness auto
termination
  by (relation "measure (\<lambda>(t, fs). length fs)") (auto simp: less_Suc_eq_le)

text \<open>
  Modelled from the spec: section 4.5 again.  The suppression works on each
  label alone, on the candidates sorted by descending confidence.  The sort is
  stable (section 9 asks for a tie-break by detection order); the labels come in
  the order \<open>remdups\<close> leaves them.
\<close>

definition suppress_label :: "real \<Rightarrow> GeoFeature list \<Rightarrow> string \<Rightarrow> GeoFeature list" where
  "suppress_label t features l =
     nms_greedy t (sort_key (\<lambda>f. - fconfidence f) (filter (\<lambda>f. flabel f = l) features))"

definition suppress :: "GeoFeature list \<Rightarrow> real \<Rightarrow> GeoFeature list" where
  "suppress features t =
     concat (map (suppress_label t features) (remdups (map flabel features)))"

text \<open>
  Modelled from the spec: the body of \<^verbatim>\<open>process\<close> is missing.  Section 4.3: every
  window's predictions are added to the collection, and the suppression runs
  over the whole collection when it is enabled.
\<close>

definition collect ::
  "OpenSkyNetArgs \<Rightarrow> (real \<times> real \<Rightarrow> real \<times> real) \<Rightarrow> producer_metadata \<Rightarrow>
   (Rect \<times> Prediction list) list \<Rightarrow> GeoFeature list" where
  "collect a tr pm results = foldl (\<lambda>fc (w, ps). addFeature a tr pm w ps fc) [] results"

definition process ::
  "OpenSkyNetArgs \<Rightarrow> (real \<times> real \<Rightarrow> real \<times> real) \<Rightarrow> producer_metadata \<Rightarrow>
   (Rect \<times> Prediction list) list \<Rightarrow> GeoFeature list" where
  "process a tr pm results =
     (let fc = collect a tr pm results in if nms a then suppress fc (overlap a) else fc)"

section \<open>Example inputs\<close>

text \<open>
  Concrete inputs for the examples below.  The library functions of
  \<open>example_ext\<close> and the member values of \<open>example_args\<close> are arbitrary choices
  (the stem here is the text before the first dot).
\<close>

definition example_ext :: externals where
  "example_ext =
     \<lparr>supportedFormats = [''shp'', ''geojson''], MAPSAPI_MAPID = ''map'',
      splitArgs_default = True, path_stem = takeWhile (\<lambda>c. c \<noteq> CHR ''.''), path_filename = id,
      stringToLevel = (\<lambda>s. if s = ''info'' then Some info else None),
      ofstream_ok = (\<lambda>p. True), readMaskedInputFromConsole = ''pw'',
      parse_environment = Some Map.empty,
      parse_config_file =
        map_of [(''a.cfg'', map_of [(''zoom'', VInt 12), (''format'', VStr ''geojson''),
                                    (''confidence'', VFloat (2 / 5))]),
                (''b.cfg'', map_of [(''zoom'', VInt 14), (''token'', VStr ''tk'')])]\<rparr>"

definition example_args :: OpenSkyNetArgs where
  "example_args =
     \<lparr>action = UNKNOWN, bbox = None, source = LOCAL, image_path = [], mapId = ''map'',
      token = [], credentials = [], zoom = 18, maxConnections = 10, outputFormat = ''shp'',
      outputPath = [], layerName = [], geometryType = POLYGON, producerInfo = False,
      useCpu = False, maxUtitilization = 95, modelPath = [], windowSize = None, confidence = 1 / 2,
      stepSize = None, pyramid = False, nms = False, overlap = 3 / 10, quiet = False,
      coutSink = None, cerrSink = None, fileSinks = [], warnings = []\<rparr>"

definition explicit :: "opt_value \<Rightarrow> variable_value" where
  "explicit x = \<lparr>val = x, defaulted = False\<rparr>"

definition example_vm :: variables_map where
  "example_vm = map_of
     [(''image'', explicit (VStr ''a.tif'')), (''model'', explicit (VStr ''m.gbdxm'')),
      (''output'', explicit (VStr ''out.shp'')), (''output-layer'', explicit (VStr ''mine'')),
      (''format'', \<lparr>val = VStr ''shp'', defaulted = True\<rparr>),
      (''type'', explicit (VStr ''PoInT'')), (''nms'', explicit (VFloats [2])),
      (''producer-info'', explicit VFlag)]"

definition example_cmdline :: parsed_options where
  "example_cmdline = map_of
     [(''action'', VStr ''detect''), (''config'', VStrs [''a.cfg'', ''b.cfg'']),
      (''confidence'', VFloat (4 / 5)), (''image'', VStr ''a.tif'')]"

section \<open>Precedence among configuration files, as the claim words it\<close>

text \<open>
  The values that the configuration files give to the option \<open>k\<close>, in the order
  in which the files are listed, and the one of the file listed last among them.
  This definition follows the words of the claim; it is compared below with
  the variables map that \<open>parseArgs\<close> builds.
\<close>

definition file_values :: "externals \<Rightarrow> string list \<Rightarrow> string \<Rightarrow> opt_value list" where
  "file_values ext files k =
     List.map_filter (\<lambda>f. case parse_config_file ext f of Some opts \<Rightarrow> opts k | None \<Rightarrow> None) files"

definition last_listed_value :: "externals \<Rightarrow> string list \<Rightarrow> string \<Rightarrow> opt_value option" where
  "last_listed_value ext files k =
     (case rev (file_values ext files k) of [] \<Rightarrow> None | x # _ \<Rightarrow> Some x)"

text \<open>
  A run: two overlapping windows (intersection over union 3/5) with a car each,
  and a tree below the confidence threshold 1/2.
\<close>

definition example_pm :: producer_metadata where
  "example_pm = \<lparr>tool_name = ''OpenSpaceNet'', tool_version = ''0.3.0'', operator = ''user''\<rparr>"

definition example_results :: "(Rect \<times> Prediction list) list" where
  "example_results =
     [(\<lparr>rx = 0, ry = 0, rwidth = 4, rheight = 10\<rparr>,
       [\<lparr>plabel = ''car'', pconfidence = 9 / 10\<rparr>, \<lparr>plabel = ''tree'', pconfidence = 2 / 5\<rparr>]),
      (\<lparr>rx = 1, ry = 0, rwidth = 4, rheight = 10\<rparr>,
       [\<lparr>plabel = ''car'', pconfidence = 3 / 5\<rparr>])]"

definition example_run_args :: OpenSkyNetArgs where
  "example_run_args = example_args\<lparr>confidence := 1 / 2, nms := True, overlap := 1 / 2\<rparr>"

definition example_features :: "GeoFeature list" where
  "example_features = collect example_run_args id example_pm example_results"

section \<open>Evaluation of the examples\<close>

lemmas reader_defs =
  readArgsOnly_def readArgs_def bindE_def readOptional_def readRequired_def readOptionalStrings_def
  readProcessingArgs_def readOutputArgs_def readFeatureDetectionArgs_def readLoggingArgs_def
  readWebServiceArgs_def parseService_def present_def to_lower_def to_lower_char_def

lemmas example_defs = example_vm_def example_args_def example_ext_def explicit_def

section \<open>The geometry type (readOutputArgs)\<close>

lemma readOutputArgs_invalid_type:
  assumes "vm ''type'' = Some v" and "val v = VStr t"
      and "to_lower t \<noteq> ''polygon''" and "to_lower t \<noteq> ''point''"
  shows "\<exists>e. readOutputArgs ext vm a = Inl e"
  using assms
  by (auto simp: readOutputArgs_def bindE_def readOptional_def Let_def split: sum.splits option.splits)

lemma readArgsOnly_output_fails:
  assumes "\<And>a. \<exists>e. readOutputArgs ext vm a = Inl e"
  shows "\<exists>e. readArgsOnly ext vm a = Inl e"
proof -
  have "\<And>a x. readOutputArgs ext vm a \<noteq> Inr x"
    using assms by (metis Inl_Inr_False)
  then show ?thesis
    by (auto simp: readArgsOnly_def bindE_def Let_def split: sum.splits option.splits)
qed

text \<open>
  C5.  When the other output options are read without an exception: an absent
  \<^verbatim>\<open>type\<close> gives polygon geometry, a string that is \<^verbatim>\<open>polygon\<close> after lowering gives
  polygon, one that is \<^verbatim>\<open>point\<close> after lowering gives point.  Every other string
  makes \<^verbatim>\<open>readOutputArgs\<close> throw, and \<^verbatim>\<open>readArgs\<close> then ends with an error whatever
  the processing \<open>run\<close> is: the processing is not reached.
\<close>

theorem geometry_type_reading:
  "(readOptional as_string vm ''format'' = Inr fmt \<and>
    readRequired as_string vm ''output'' None = Inr out \<and>
    readOptional as_string vm ''output-layer'' = Inr layer \<longrightarrow>
      (vm ''type'' = None \<longrightarrow>
         (\<exists>a'. readOutputArgs ext vm a = Inr a' \<and> geometryType a' = POLYGON)) \<and>
      (vm ''type'' = Some v \<and> val v = VStr t \<and> to_lower t = ''polygon'' \<longrightarrow>
         (\<exists>a'. readOutputArgs ext vm a = Inr a' \<and> geometryType a' = POLYGON)) \<and>
      (vm ''type'' = Some v \<and> val v = VStr t \<and> to_lower t = ''point'' \<longrightarrow>
         (\<exists>a'. readOutputArgs ext vm a = Inr a' \<and> geometryType a' = POINT))) \<and>
   (vm ''type'' = Some v \<and> val v = VStr t \<and> to_lower t \<noteq> ''polygon'' \<and> to_lower t \<noteq> ''point'' \<longrightarrow>
      (\<exists>e. readOutputArgs ext vm a = Inl e) \<and>
      (\<exists>e. \<forall>run :: OpenSkyNetArgs \<Rightarrow> osn_error + 'r. readArgs ext run vm a = Inl e))"
proof (intro conjI impI)
  assume h: "vm ''type'' = Some v \<and> val v = VStr t \<and> to_lower t \<noteq> ''polygon'' \<and> to_lower t \<noteq> ''point''"
  then show "\<exists>e. readOutputArgs ext vm a = Inl e"
    using readOutputArgs_invalid_type by blast
  from h have "\<And>b. \<exists>e. readOutputArgs ext vm b = Inl e"
    using readOutputArgs_invalid_type by blast
  then obtain e where "readArgsOnly ext vm a = Inl e"
    using readArgsOnly_output_fails by blast
  then have "\<forall>run :: OpenSkyNetArgs \<Rightarrow> osn_error + 'r. readArgs ext run vm a = Inl e"
    by (simp add: readArgs_def bindE_def)
  then show "\<exists>e. \<forall>run :: OpenSkyNetArgs \<Rightarrow> osn_error + 'r. readArgs ext run vm a = Inl e" ..
qed (auto simp: readOutputArgs_def bindE_def readOptional_def Let_def to_lower_def to_lower_char_def
       split: sum.splits option.splits)

theorem geometry_type_reading_witness:
  "(\<exists>a'. readOutputArgs example_ext example_vm example_args = Inr a' \<and> geometryType a' = POINT) \<and>
   (\<exists>a'. readOutputArgs example_ext (example_vm(''type'' := None)) example_args = Inr a' \<and>
         geometryType a' = POLYGON) \<and>
   (\<exists>e. \<forall>run :: OpenSkyNetArgs \<Rightarrow> osn_error + unit.
      readArgs example_ext run (example_vm(''type'' \<mapsto> explicit (VStr ''Circle''))) example_args = Inl e)"
proof (intro conjI)
  show "\<exists>a'. readOutputArgs example_ext example_vm example_args = Inr a' \<and> geometryType a' = POINT"
    using geometry_type_reading [where vm = example_vm and fmt = "Some ''shp''" and out = "''out.shp''"
        and layer = "Some ''mine''" and v = "explicit (VStr ''PoInT'')" and t = "''PoInT''"
        and ext = example_ext and a = example_args]
    by (simp add: example_vm_def explicit_def readOptional_def readRequired_def bindE_def
        to_lower_def to_lower_char_def)
  show "\<exists>a'. readOutputArgs example_ext (example_vm(''type'' := None)) example_args = Inr a' \<and>
         geometryType a' = POLYGON"
    using geometry_type_reading [where vm = "example_vm(''type'' := None)" and fmt = "Some ''shp''" and out = "''out.shp''"
        and layer = "Some ''mine''" and ext = example_ext and a = example_args]
    by (simp add: example_vm_def explicit_def readOptional_def readRequired_def bindE_def)
  show "\<exists>e. \<forall>run :: OpenSkyNetArgs \<Rightarrow> osn_error + unit.
      readArgs example_ext run (example_vm(''type'' \<mapsto> explicit (VStr ''Circle''))) example_args = Inl e"
    using geometry_type_reading [where vm = "example_vm(''type'' \<mapsto> explicit (VStr ''Circle''))"
        and v = "explicit (VStr ''Circle'')" and t = "''Circle''"
        and ext = example_ext and a = example_args and 'r = unit]
    by (simp add: explicit_def to_lower_def to_lower_char_def)
qed

section \<open>The output layer (readOutputArgs)\<close>

text \<open>
  C10.  After a successful \<^verbatim>\<open>readOutputArgs\<close> the format is the lowered \<^verbatim>\<open>format\<close>
  option (the member's value when the option is absent).  When it is \<^verbatim>\<open>shp\<close> the
  layer name is \<^verbatim>\<open>path(outputPath).stem().filename()\<close>, whatever \<^verbatim>\<open>output-layer\<close>
  holds, and a supplied \<^verbatim>\<open>output-layer\<close> adds the warning; for every other format
  the layer name is the supplied one, or \<^verbatim>\<open>skynetdetects\<close> when none is supplied.
\<close>

theorem output_layer_name:
  assumes "readOutputArgs ext vm a = Inr a'"
      and "readOptional as_string vm ''format'' = Inr fmt"
      and "readOptional as_string vm ''output-layer'' = Inr layer"
  shows "outputFormat a' = to_lower (case fmt of Some f \<Rightarrow> f | None \<Rightarrow> outputFormat a) \<and>
         readRequired as_string vm ''output'' None = Inr (outputPath a') \<and>
         (outputFormat a' = ''shp'' \<longrightarrow>
            layerName a' = path_filename ext (path_stem ext (outputPath a')) \<and>
            warnings a' =
              (if layer = None then warnings a
               else warnings a @ [''output-layer argument is ignored for Shapefile output.''])) \<and>
         (outputFormat a' \<noteq> ''shp'' \<longrightarrow>
            layerName a' = (case layer of Some l \<Rightarrow> l | None \<Rightarrow> ''skynetdetects'') \<and>
            warnings a' = warnings a)"
  using assms
  by (auto simp: readOutputArgs_def bindE_def Let_def split: sum.splits option.splits if_splits)

theorem output_layer_name_witness:
  "layerName (projr (readOutputArgs example_ext example_vm example_args)) = ''out'' \<and>
   warnings (projr (readOutputArgs example_ext example_vm example_args)) =
     [''output-layer argument is ignored for Shapefile output.''] \<and>
   layerName (projr (readOutputArgs example_ext
      (example_vm(''format'' \<mapsto> explicit (VStr ''GeoJSON''))) example_args)) = ''mine'' \<and>
   layerName (projr (readOutputArgs example_ext
      (example_vm(''format'' \<mapsto> explicit (VStr ''GeoJSON''), ''output-layer'' := None)) example_args)) =
      ''skynetdetects''"
proof -
  have r1: "readOutputArgs example_ext example_vm example_args =
      Inr (projr (readOutputArgs example_ext example_vm example_args))"
    by (simp add: reader_defs example_defs)
  have r2: "readOutputArgs example_ext (example_vm(''format'' \<mapsto> explicit (VStr ''GeoJSON''))) example_args =
      Inr (projr (readOutputArgs example_ext (example_vm(''format'' \<mapsto> explicit (VStr ''GeoJSON''))) example_args))"
    by (simp add: reader_defs example_defs)
  have r3: "readOutputArgs example_ext (example_vm(''format'' \<mapsto> explicit (VStr ''GeoJSON''), ''output-layer'' := None)) example_args =
      Inr (projr (readOutputArgs example_ext (example_vm(''format'' \<mapsto> explicit (VStr ''GeoJSON''), ''output-layer'' := None)) example_args))"
    by (simp add: reader_defs example_defs)
  show ?thesis
    using output_layer_name [OF r1, where fmt = "Some ''shp''" and layer = "Some ''mine''"]
          output_layer_name [OF r2, where fmt = "Some ''GeoJSON''" and layer = "Some ''mine''"]
          output_layer_name [OF r3, where fmt = "Some ''GeoJSON''" and layer = "None"]
    by (simp add: example_vm_def explicit_def readOptional_def readRequired_def bindE_def
        to_lower_def to_lower_char_def example_ext_def example_args_def)
qed

section \<open>The suppression options (readFeatureDetectionArgs)\<close>

text \<open>
  C6.  Starting from an argument object whose \<^verbatim>\<open>nms\<close> member is false, and with
  options of the declared types, \<^verbatim>\<open>readFeatureDetectionArgs\<close> succeeds; afterwards
  \<^verbatim>\<open>nms\<close> is true exactly when the option \<^verbatim>\<open>nms\<close> is in the variables map, the
  overlap threshold is the first value of the option when it has one, and the
  value the member had before (the default) when it has none or is absent.
\<close>

theorem nms_option_reading:
  assumes "readOptional as_float vm ''confidence'' = Inr c"
      and "readOptional as_cvPoint vm ''step-size'' = Inr st"
      and "readOptional as_floats vm ''nms'' = Inr r"
      and "\<not> nms a"
  shows "\<exists>a'. readFeatureDetectionArgs vm a = Inr a' \<and>
           (nms a' \<longleftrightarrow> present vm ''nms'') \<and>
           overlap a' = (case r of Some (x # xs) \<Rightarrow> x | Some [] \<Rightarrow> overlap a | None \<Rightarrow> overlap a)"
  using assms
  by (auto simp: readFeatureDetectionArgs_def bindE_def Let_def present_def readOptional_def
           split: sum.splits option.splits list.splits)

theorem nms_option_reading_witness:
  "(\<exists>a'. readFeatureDetectionArgs example_vm example_args = Inr a' \<and> nms a' \<and> overlap a' = 2) \<and>
   (\<exists>a'. readFeatureDetectionArgs (example_vm(''nms'' \<mapsto> explicit (VFloats []))) example_args = Inr a' \<and>
      nms a' \<and> overlap a' = 3 / 10) \<and>
   (\<exists>a'. readFeatureDetectionArgs (example_vm(''nms'' := None)) example_args = Inr a' \<and>
      \<not> nms a' \<and> overlap a' = 3 / 10)"
  using nms_option_reading [where vm = example_vm and c = None and st = None and r = "Some [2]" and a = example_args]
        nms_option_reading [where vm = "example_vm(''nms'' \<mapsto> explicit (VFloats []))" and c = None and st = None
            and r = "Some []" and a = example_args]
        nms_option_reading [where vm = "example_vm(''nms'' := None)" and c = None and st = None
            and r = "None" and a = example_args]
  by (simp add: example_vm_def explicit_def readOptional_def bindE_def present_def example_args_def)

section \<open>The overlap threshold is not range-checked\<close>

lemma readOptional_other:
  "k \<noteq> k' \<Longrightarrow> readOptional as_T (vm(k' \<mapsto> v)) k = readOptional as_T vm k"
  by (simp add: readOptional_def)

lemma readRequired_other:
  "k \<noteq> k' \<Longrightarrow> readRequired as_T (vm(k' \<mapsto> v)) k e = readRequired as_T vm k e"
  by (simp add: readRequired_def)

lemma readOptionalStrings_other:
  "k \<noteq> k' \<Longrightarrow> readOptionalStrings (vm(k' \<mapsto> v)) k b = readOptionalStrings vm k b"
  by (simp add: readOptionalStrings_def)

lemma present_other:
  "k \<noteq> k' \<Longrightarrow> present (vm(k' \<mapsto> v)) k = present vm k"
  by (simp add: present_def)

lemmas other_option = readOptional_other readRequired_other readOptionalStrings_other present_other

lemma readProcessingArgs_nms: "readProcessingArgs (vm(''nms'' \<mapsto> v)) a = readProcessingArgs vm a"
  by (simp add: readProcessingArgs_def other_option)

lemma readOutputArgs_nms: "readOutputArgs ext (vm(''nms'' \<mapsto> v)) a = readOutputArgs ext vm a"
  by (simp add: readOutputArgs_def other_option)

lemma readWebServiceArgs_nms: "readWebServiceArgs ext (vm(''nms'' \<mapsto> v)) a = readWebServiceArgs ext vm a"
  by (simp add: readWebServiceArgs_def other_option)

lemma readLoggingArgs_nms: "readLoggingArgs ext (vm(''nms'' \<mapsto> v)) a = readLoggingArgs ext vm a"
  by (simp add: readLoggingArgs_def other_option)

lemma readLoggingArgs_overlap:
  "readLoggingArgs ext vm a = Inr a' \<Longrightarrow>
   readLoggingArgs ext vm (a\<lparr>nms := n, overlap := x\<rparr>) = Inr (a'\<lparr>nms := n, overlap := x\<rparr>)"
  by (auto simp: readLoggingArgs_def bindE_def Let_def
           split: sum.splits option.splits if_splits list.splits prod.splits)

lemma readFeatureDetectionArgs_any_threshold:
  "readFeatureDetectionArgs vm a = Inr a' \<Longrightarrow>
   readFeatureDetectionArgs (vm(''nms'' \<mapsto> \<lparr>val = VFloats (x # xs), defaulted = d\<rparr>)) a =
     Inr (a'\<lparr>nms := True, overlap := x\<rparr>)"
  by (auto simp: readFeatureDetectionArgs_def bindE_def Let_def other_option readOptional_def present_def
           split: sum.splits option.splits if_splits list.splits)

text \<open>
  C1 (as amended).  Reading the arguments never fails because of the value of
  the overlap threshold: whenever a variables map is read without an error, the
  same map with any value \<open>x\<close> for the option \<^verbatim>\<open>nms\<close>, inside the interval (0,1]
  or outside of it, is read without an error too, and \<open>x\<close> is stored as the
  overlap threshold.
\<close>

theorem overlap_threshold_stored_unchecked:
  assumes "readArgsOnly ext vm a = Inr a'"
  shows "readArgsOnly ext (vm(''nms'' \<mapsto> \<lparr>val = VFloats (x # xs), defaulted = d\<rparr>)) a =
     Inr (a'\<lparr>nms := True, overlap := x\<rparr>)"
  using assms
  by (auto simp: readArgsOnly_def bindE_def Let_def other_option readProcessingArgs_nms
        readOutputArgs_nms readWebServiceArgs_nms readLoggingArgs_nms
        readFeatureDetectionArgs_any_threshold readLoggingArgs_overlap
      split: sum.splits option.splits)

theorem overlap_threshold_stored_unchecked_witness:
  "readArgsOnly example_ext
      (example_vm(''nms'' \<mapsto> \<lparr>val = VFloats [5], defaulted = False\<rparr>)) example_args =
     Inr ((projr (readArgsOnly example_ext example_vm example_args))\<lparr>nms := True, overlap := 5\<rparr>) \<and>
   readArgsOnly example_ext
      (example_vm(''nms'' \<mapsto> \<lparr>val = VFloats [1 / 2], defaulted = False\<rparr>)) example_args =
     Inr ((projr (readArgsOnly example_ext example_vm example_args))\<lparr>nms := True, overlap := 1 / 2\<rparr>)"
proof -
  have r: "readArgsOnly example_ext example_vm example_args =
      Inr (projr (readArgsOnly example_ext example_vm example_args))"
    by (simp add: reader_defs example_defs)
  from overlap_threshold_stored_unchecked [OF r, where x = 5 and xs = "[]" and d = False]
       overlap_threshold_stored_unchecked [OF r, where x = "1 / 2" and xs = "[]" and d = False]
  show ?thesis by blast
qed

text \<open>
  C1 (as stated) fails: the threshold 2 lies outside (0,1], and reading the
  arguments of the example succeeds with 2 as the overlap threshold.
\<close>

theorem overlap_threshold_counterexample:
  "\<not> (0 < (2::real) \<and> (2::real) \<le> 1) \<and>
   example_vm ''nms'' = Some \<lparr>val = VFloats [2], defaulted = False\<rparr> \<and>
   \<not> isl (readArgsOnly example_ext example_vm example_args) \<and>
   overlap (projr (readArgsOnly example_ext example_vm example_args)) = 2"
  by (simp add: reader_defs example_defs)

section \<open>The bounding box (readArgs, readWebServiceArgs)\<close>

text \<open>
  C8.  \<^verbatim>\<open>readWebServiceArgs\<close> without a bounding box throws the bounding-box error
  for every variables map: no web-service option has any influence on the
  outcome.  So \<^verbatim>\<open>readArgs\<close> with a valid \<^verbatim>\<open>service\<close> and no \<^verbatim>\<open>bbox\<close> ends with
  that error.  With no \<^verbatim>\<open>service\<close>, an \<^verbatim>\<open>image\<close> and no \<^verbatim>\<open>bbox\<close>, reading succeeds
  whenever the four later readers do, and leaves the bounding box null.
\<close>

theorem bbox_required_for_web_services:
  "(bbox a = None \<longrightarrow> readWebServiceArgs ext vm a = Inl BboxRequiredForWebServices) \<and>
   (vm ''bbox'' = None \<and> vm ''service'' = Some v \<and> val v = VStr service \<and>
    parseService service = Inr src \<longrightarrow>
      readArgsOnly ext vm a = Inl BboxRequiredForWebServices \<and>
      (\<forall>run :: OpenSkyNetArgs \<Rightarrow> osn_error + 'c. readArgs ext run vm a = Inl BboxRequiredForWebServices)) \<and>
   (vm ''bbox'' = None \<and> vm ''service'' = None \<and> vm ''image'' = Some i \<and> val i = VStr img \<and>
    readProcessingArgs vm (a\<lparr>bbox := None, image_path := img, source := LOCAL\<rparr>) = Inr a3 \<and>
    readOutputArgs ext vm a3 = Inr a4 \<and>
    readFeatureDetectionArgs vm a4 = Inr a5 \<and>
    readLoggingArgs ext vm a5 = Inr a6 \<longrightarrow>
      (\<exists>a'. readArgsOnly ext vm a = Inr a' \<and> bbox a' = None \<and> source a' = LOCAL \<and>
             image_path a' = img))"
proof (intro conjI impI allI)
  assume "bbox a = None"
  then show "readWebServiceArgs ext vm a = Inl BboxRequiredForWebServices"
    by (simp add: readWebServiceArgs_def)
next
  assume h: "vm ''bbox'' = None \<and> vm ''service'' = Some v \<and> val v = VStr service \<and>
    parseService service = Inr src"
  then show r: "readArgsOnly ext vm a = Inl BboxRequiredForWebServices"
    by (simp add: readArgsOnly_def readOptional_def bindE_def readWebServiceArgs_def)
  fix run :: "OpenSkyNetArgs \<Rightarrow> osn_error + 'c"
  from r show "readArgs ext run vm a = Inl BboxRequiredForWebServices"
    by (simp add: readArgs_def bindE_def)
next
  assume h: "vm ''bbox'' = None \<and> vm ''service'' = None \<and> vm ''image'' = Some i \<and> val i = VStr img \<and>
    readProcessingArgs vm (a\<lparr>bbox := None, image_path := img, source := LOCAL\<rparr>) = Inr a3 \<and>
    readOutputArgs ext vm a3 = Inr a4 \<and>
    readFeatureDetectionArgs vm a4 = Inr a5 \<and>
    readLoggingArgs ext vm a5 = Inr a6"
  have p: "bbox a3 = None \<and> source a3 = LOCAL \<and> image_path a3 = img"
    using h by (auto simp: readProcessingArgs_def bindE_def Let_def split: sum.splits option.splits)
  have q: "bbox a4 = bbox a3 \<and> source a4 = source a3 \<and> image_path a4 = image_path a3"
    using h by (auto simp: readOutputArgs_def bindE_def Let_def split: sum.splits option.splits if_splits)
  have r: "bbox a5 = bbox a4 \<and> source a5 = source a4 \<and> image_path a5 = image_path a4"
    using h by (auto simp: readFeatureDetectionArgs_def bindE_def Let_def split: sum.splits option.splits if_splits list.splits)
  have s: "bbox a6 = bbox a5 \<and> source a6 = source a5 \<and> image_path a6 = image_path a5"
    using h by (auto simp: readLoggingArgs_def bindE_def Let_def split: sum.splits option.splits if_splits list.splits prod.splits)
  show "\<exists>a'. readArgsOnly ext vm a = Inr a' \<and> bbox a' = None \<and> source a' = LOCAL \<and>
             image_path a' = img"
    using h p q r s
    by (simp add: readArgsOnly_def readOptional_def readRequired_def bindE_def Let_def)
qed


theorem bbox_required_for_web_services_witness:
  "readWebServiceArgs example_ext example_vm example_args = Inl BboxRequiredForWebServices \<and>
   readArgsOnly example_ext (example_vm(''service'' \<mapsto> explicit (VStr ''DGCS''))) example_args =
     Inl BboxRequiredForWebServices \<and>
   (\<exists>a'. readArgsOnly example_ext example_vm example_args = Inr a' \<and> bbox a' = None \<and>
      source a' = LOCAL \<and> image_path a' = ''a.tif'')"
proof (intro conjI)
  have b: "bbox example_args = None"
    by (simp add: example_args_def)
  note web = bbox_required_for_web_services
    [where a = example_args and ext = example_ext and vm = example_vm, THEN conjunct1]
  from web b show "readWebServiceArgs example_ext example_vm example_args =
      Inl BboxRequiredForWebServices"
    by blast
next
  let ?vm = "example_vm(''service'' \<mapsto> explicit (VStr ''DGCS''))"
  have h: "?vm ''bbox'' = None \<and> ?vm ''service'' = Some (explicit (VStr ''DGCS'')) \<and>
      val (explicit (VStr ''DGCS'')) = VStr ''DGCS'' \<and> parseService ''DGCS'' = Inr DGCS"
    by (simp add: example_vm_def explicit_def parseService_def to_lower_def to_lower_char_def)
  note svc = bbox_required_for_web_services
    [where a = example_args and ext = example_ext and vm = ?vm and v = "explicit (VStr ''DGCS'')"
       and service = "''DGCS''" and src = DGCS and 'c = unit,
     THEN conjunct2, THEN conjunct1]
  from svc h show "readArgsOnly example_ext ?vm example_args = Inl BboxRequiredForWebServices"
    by blast
next
  let ?a2 = "example_args\<lparr>bbox := None, image_path := ''a.tif'', source := LOCAL\<rparr>"
  let ?a3 = "projr (readProcessingArgs example_vm ?a2)"
  let ?a4 = "projr (readOutputArgs example_ext example_vm ?a3)"
  let ?a5 = "projr (readFeatureDetectionArgs example_vm ?a4)"
  let ?a6 = "projr (readLoggingArgs example_ext example_vm ?a5)"
  have r3: "readProcessingArgs example_vm ?a2 = Inr ?a3"
    by (simp add: reader_defs example_defs)
  have r4: "readOutputArgs example_ext example_vm ?a3 = Inr ?a4"
    by (simp add: reader_defs example_defs)
  have r5: "readFeatureDetectionArgs example_vm ?a4 = Inr ?a5"
    by (simp add: reader_defs example_defs)
  have r6: "readLoggingArgs example_ext example_vm ?a5 = Inr ?a6"
    by (simp add: reader_defs example_defs)
  have h: "example_vm ''bbox'' = None \<and> example_vm ''service'' = None \<and>
      example_vm ''image'' = Some (explicit (VStr ''a.tif'')) \<and>
      val (explicit (VStr ''a.tif'')) = VStr ''a.tif''"
    by (simp add: example_vm_def explicit_def)
  note loc = bbox_required_for_web_services
    [where a = example_args and ext = example_ext and vm = example_vm
       and i = "explicit (VStr ''a.tif'')" and img = "''a.tif''"
       and ?a3.0 = ?a3 and ?a4.0 = ?a4 and ?a5.0 = ?a5 and ?a6.0 = ?a6 and 'c = unit,
     THEN conjunct2, THEN conjunct2]
  from loc h r3 r4 r5 r6
  show "\<exists>a'. readArgsOnly example_ext example_vm example_args = Inr a' \<and> bbox a' = None \<and>
      source a' = LOCAL \<and> image_path a' = ''a.tif''"
    by blast
qed

section \<open>Precedence of the option sources (parseArgs)\<close>

lemma store_final:
  "vm k = Some v \<Longrightarrow> \<not> defaulted v \<Longrightarrow> store dflt opts vm k = Some v"
  by (simp add: store_def)

lemma store_explicit:
  "\<forall>v. vm k = Some v \<longrightarrow> defaulted v \<Longrightarrow> opts k = Some x \<Longrightarrow>
   store dflt opts vm k = Some \<lparr>val = x, defaulted = False\<rparr>"
  by (auto simp: store_def split: option.splits)

lemma store_not_final:
  "\<forall>v. vm k = Some v \<longrightarrow> defaulted v \<Longrightarrow> opts k = None \<Longrightarrow>
   \<forall>v. store dflt opts vm k = Some v \<longrightarrow> defaulted v"
  by (auto simp: store_def split: option.splits)

lemma storeConfigFiles_final:
  "storeConfigFiles ext dflt gs vm = Inr vm' \<Longrightarrow> vm k = Some v \<Longrightarrow> \<not> defaulted v \<Longrightarrow>
   vm' k = Some v"
proof (induction gs arbitrary: vm)
  case Nil
  then show ?case by simp
next
  case (Cons g gs)
  then show ?case
    by (auto simp: bindE_def Let_def store_final split: option.splits sum.splits)
qed

lemma storeConfigFiles_first:
  "storeConfigFiles ext dflt gs vm = Inr vm' \<Longrightarrow> \<forall>v. vm k = Some v \<longrightarrow> defaulted v \<Longrightarrow>
   file_values ext gs k = x # xs \<Longrightarrow> vm' k = Some \<lparr>val = x, defaulted = False\<rparr>"
proof (induction gs arbitrary: vm)
  case Nil
  then show ?case by (simp add: file_values_def)
next
  case (Cons g gs)
  from Cons.prems(1) obtain opts where p: "parse_config_file ext g = Some opts"
    and r: "storeConfigFiles ext dflt gs (store dflt opts vm) = Inr vm'"
    by (auto simp: bindE_def Let_def split: option.splits sum.splits)
  show ?case
  proof (cases "opts k")
    case None
    with p Cons.prems(3) have "file_values ext gs k = x # xs"
      by (simp add: file_values_def)
    moreover have "\<forall>v. store dflt opts vm k = Some v \<longrightarrow> defaulted v"
      using store_not_final [where vm = vm and k = k and opts = opts] Cons.prems(2) None by blast
    ultimately show ?thesis
      using Cons.IH [OF r] by blast
  next
    case (Some y)
    with p Cons.prems(3) have "y = x"
      by (simp add: file_values_def)
    with Some have "store dflt opts vm k = Some \<lparr>val = x, defaulted = False\<rparr>"
      using store_explicit [where vm = vm and k = k and opts = opts] Cons.prems(2) by blast
    then show ?thesis
      using storeConfigFiles_final [OF r] by simp
  qed
qed

lemma file_values_rev: "file_values ext (rev fs) k = rev (file_values ext fs k)"
  by (simp add: file_values_def List.map_filter_def rev_map rev_filter)

text \<open>
  C9.  In the variables map that \<^verbatim>\<open>parseArgs\<close> returns, an option set on the
  command line holds the command-line value, whatever the environment and the
  configuration files say.  An option that the command line does not set holds
  the value of the environment when the environment sets it; otherwise, when
  configuration files set it, it holds the value of the file listed last among
  them.
\<close>

theorem option_precedence:
  assumes "parseArgs ext argc (Some cmd) a = Inr (vm, a')"
      and "parse_environment ext = Some env"
  shows "(cmd k = Some x \<longrightarrow> vm k = Some \<lparr>val = x, defaulted = False\<rparr>) \<and>
         (cmd k = None \<and> env k = Some x \<longrightarrow> vm k = Some \<lparr>val = x, defaulted = False\<rparr>) \<and>
         (cmd k = None \<and> env k = None \<and>
          readOptionalStrings (store (option_defaults ext a) env (store (option_defaults ext a) cmd Map.empty))
            ''config'' (splitArgs_default ext) = Inr (Some files) \<and>
          last_listed_value ext files k = Some x \<longrightarrow>
            vm k = Some \<lparr>val = x, defaulted = False\<rparr>)"
proof -
  let ?d = "option_defaults ext a"
  let ?vm1 = "store ?d cmd Map.empty"
  let ?vm2 = "store ?d env ?vm1"
  from assms obtain cf where
    cf: "readOptionalStrings ?vm2 ''config'' (splitArgs_default ext) = Inr cf" and
    st: "(case cf of Some configFiles \<Rightarrow> storeConfigFiles ext ?d (rev configFiles) ?vm2
          | None \<Rightarrow> Inr ?vm2) = Inr vm"
    by (auto simp: parseArgs_def bindE_def Let_def split: if_splits sum.splits option.splits)
  have keep: "vm k = Some v" if "?vm2 k = Some v" "\<not> defaulted v" for v
    using st that storeConfigFiles_final by (cases cf) auto
  have c1: "vm k = Some \<lparr>val = x, defaulted = False\<rparr>" if "cmd k = Some x"
  proof -
    from that have "?vm2 k = Some \<lparr>val = x, defaulted = False\<rparr>"
      by (simp add: store_def)
    then show ?thesis using keep by simp
  qed
  have c2: "vm k = Some \<lparr>val = x, defaulted = False\<rparr>" if "cmd k = None" "env k = Some x"
  proof -
    from that have "?vm2 k = Some \<lparr>val = x, defaulted = False\<rparr>"
      by (simp add: store_def split: option.splits)
    then show ?thesis using keep by simp
  qed
  have c3: "vm k = Some \<lparr>val = x, defaulted = False\<rparr>"
    if "cmd k = None" "env k = None"
       "readOptionalStrings ?vm2 ''config'' (splitArgs_default ext) = Inr (Some files)"
       "last_listed_value ext files k = Some x"
  proof -
    from that(3) cf have "cf = Some files" by simp
    with st have s: "storeConfigFiles ext ?d (rev files) ?vm2 = Inr vm" by simp
    from that(1,2) have nf: "\<forall>v. ?vm2 k = Some v \<longrightarrow> defaulted v"
      by (auto simp: store_def split: option.splits)
    from that(4) obtain xs where "file_values ext (rev files) k = x # xs"
      by (auto simp: last_listed_value_def file_values_rev split: list.splits)
    then show ?thesis
      using storeConfigFiles_first [OF s nf] by blast
  qed
  from c1 c2 c3 show ?thesis by blast
qed


lemmas parse_defs = parseArgs_def store_def option_defaults_def notify_def readOptionalStrings_def
  readRequired_def bindE_def parseAction_def to_lower_def to_lower_char_def Let_def

theorem option_precedence_witness:
  "fst (projr (parseArgs example_ext 6 (Some example_cmdline) example_args)) ''confidence'' =
     Some \<lparr>val = VFloat (4 / 5), defaulted = False\<rparr> \<and>
   fst (projr (parseArgs example_ext 6 (Some example_cmdline) example_args)) ''zoom'' =
     Some \<lparr>val = VInt 14, defaulted = False\<rparr> \<and>
   fst (projr (parseArgs example_ext 6 (Some example_cmdline) example_args)) ''format'' =
     Some \<lparr>val = VStr ''geojson'', defaulted = False\<rparr>"
proof -
  let ?r = "projr (parseArgs example_ext 6 (Some example_cmdline) example_args)"
  have "\<not> isl (parseArgs example_ext 6 (Some example_cmdline) example_args)"
    by (simp add: parse_defs example_ext_def example_cmdline_def example_args_def)
  then have r: "parseArgs example_ext 6 (Some example_cmdline) example_args = Inr (fst ?r, snd ?r)"
    by simp
  have e: "parse_environment example_ext = Some Map.empty"
    by (simp add: example_ext_def)
  have f: "readOptionalStrings
      (store (option_defaults example_ext example_args) Map.empty
         (store (option_defaults example_ext example_args) example_cmdline Map.empty))
      ''config'' (splitArgs_default example_ext) = Inr (Some [''a.cfg'', ''b.cfg''])"
    by (simp add: parse_defs example_ext_def example_cmdline_def)
  have z: "last_listed_value example_ext [''a.cfg'', ''b.cfg''] ''zoom'' = Some (VInt 14)"
    by (simp add: last_listed_value_def file_values_def example_ext_def)
  have g: "last_listed_value example_ext [''a.cfg'', ''b.cfg''] ''format'' = Some (VStr ''geojson'')"
    by (simp add: last_listed_value_def file_values_def example_ext_def)
  have c: "example_cmdline ''confidence'' = Some (VFloat (4 / 5)) \<and> example_cmdline ''zoom'' = None \<and>
      example_cmdline ''format'' = None"
    by (simp add: example_cmdline_def)
  show ?thesis
    using option_precedence [OF r e, where k = "''confidence''" and x = "VFloat (4 / 5)"]
          option_precedence [OF r e, where k = "''zoom''" and x = "VInt 14" and files = "[''a.cfg'', ''b.cfg'']"]
          option_precedence [OF r e, where k = "''format''" and x = "VStr ''geojson''"
              and files = "[''a.cfg'', ''b.cfg'']"]
          f z g c
    by simp
qed

section \<open>Non-maximum suppression\<close>

lemma nms_greedy_subset: "set (nms_greedy t fs) \<subseteq> set fs"
proof (induction t fs rule: nms_greedy.induct)
  case (1 t)
  then show ?case by simp
next
  case (2 t f fs)
  then show ?case by auto
qed

lemma nms_greedy_sorted:
  "sorted (map k fs) \<Longrightarrow> sorted (map k (nms_greedy t fs))"
proof (induction t fs rule: nms_greedy.induct)
  case (1 t)
  then show ?case by simp
next
  case (2 t f fs)
  let ?rest = "filter (\<lambda>g. \<not> t < iou (fwindow f) (fwindow g)) fs"
  from "2.prems" have "sorted (map k ?rest)"
    by (simp add: sorted_filter)
  then have "sorted (map k (nms_greedy t ?rest))"
    using "2.IH" by blast
  moreover have "\<forall>g\<in>set (nms_greedy t ?rest). k f \<le> k g"
    using "2.prems" nms_greedy_subset [of t ?rest] by auto
  ultimately show ?case by simp
qed

lemma nms_greedy_separated:
  "sorted_wrt (\<lambda>f g. \<not> t < iou (fwindow f) (fwindow g)) (nms_greedy t fs)"
proof (induction t fs rule: nms_greedy.induct)
  case (1 t)
  then show ?case by simp
next
  case (2 t f fs)
  then show ?case
    using nms_greedy_subset [of t "filter (\<lambda>g. \<not> t < iou (fwindow f) (fwindow g)) fs"]
    by auto
qed

lemma nms_greedy_fixed:
  "sorted_wrt (\<lambda>f g. \<not> t < iou (fwindow f) (fwindow g)) fs \<Longrightarrow> nms_greedy t fs = fs"
proof (induction fs)
  case Nil
  then show ?case by simp
next
  case (Cons f fs)
  then have "filter (\<lambda>g. \<not> t < iou (fwindow f) (fwindow g)) fs = fs"
    by (simp add: filter_id_conv)
  with Cons show ?case by simp
qed

lemma nms_greedy_nonempty: "fs \<noteq> [] \<Longrightarrow> nms_greedy t fs \<noteq> []"
  by (cases fs) simp_all

lemma suppress_label_subset: "set (suppress_label t F l) \<subseteq> {f \<in> set F. flabel f = l}"
  using nms_greedy_subset [of t "sort_key (\<lambda>f. - fconfidence f) (filter (\<lambda>f. flabel f = l) F)"]
  by (auto simp: suppress_label_def)

lemma suppress_label_nonempty:
  assumes "l \<in> set (map flabel F)"
  shows "suppress_label t F l \<noteq> []"
proof -
  from assms have "filter (\<lambda>f. flabel f = l) F \<noteq> []"
    by (auto simp: filter_empty_conv)
  then have "sort_key (\<lambda>f. - fconfidence f) (filter (\<lambda>f. flabel f = l) F) \<noteq> []"
    by (metis length_sort length_0_conv)
  then show ?thesis
    by (simp add: suppress_label_def nms_greedy_nonempty)
qed

lemma suppress_label_fixed:
  "nms_greedy t (sort_key (\<lambda>f. - fconfidence f) (suppress_label t F l)) = suppress_label t F l"
proof -
  let ?k = "\<lambda>f. - fconfidence f"
  let ?S = "suppress_label t F l"
  have "sorted (map ?k ?S)"
    unfolding suppress_label_def by (rule nms_greedy_sorted) simp
  then have srt: "sort_key ?k ?S = ?S"
    by (rule sort_key_id_if_sorted)
  have "nms_greedy t ?S = ?S"
    unfolding suppress_label_def by (rule nms_greedy_fixed) (rule nms_greedy_separated)
  with srt show ?thesis
    by (simp only:)
qed

lemma filter_label_concat:
  assumes "distinct ls" and "l \<in> set ls"
      and "\<And>l'. l' \<in> set ls \<Longrightarrow> \<forall>f\<in>set (g l'). flabel f = l'"
  shows "filter (\<lambda>f. flabel f = l) (concat (map g ls)) = g l"
  using assms
proof (induction ls)
  case Nil
  then show ?case by simp
next
  case (Cons m ls)
  show ?case
  proof (cases "m = l")
    case True
    with Cons.prems have "l \<notin> set ls" by simp
    moreover have "\<forall>m\<in>set ls. \<forall>f\<in>set (g m). flabel f = m"
      using Cons.prems(3) by simp
    ultimately have "filter (\<lambda>f. flabel f = l) (concat (map g ls)) = []"
      by (auto simp: filter_empty_conv)
    moreover have "filter (\<lambda>f. flabel f = l) (g l) = g l"
      using Cons.prems(3) [of l] True by (simp add: filter_id_conv)
    ultimately show ?thesis using True by simp
  next
    case False
    with Cons.prems(3) [of m] have "filter (\<lambda>f. flabel f = l) (g m) = []"
      by (auto simp: filter_empty_conv)
    moreover from False Cons.prems have "filter (\<lambda>f. flabel f = l) (concat (map g ls)) = g l"
      using Cons.IH by auto
    ultimately show ?thesis by simp
  qed
qed

lemma remdups_constant_prefix:
  "xs \<noteq> [] \<Longrightarrow> \<forall>x\<in>set xs. x = l \<Longrightarrow> l \<notin> set ys \<Longrightarrow> remdups (xs @ ys) = l # remdups ys"
proof (induction xs)
  case Nil
  then show ?case by simp
next
  case (Cons x xs)
  then show ?case by (cases xs) auto
qed

lemma remdups_labels_concat:
  assumes "distinct ls"
      and "\<And>l. l \<in> set ls \<Longrightarrow> g l \<noteq> [] \<and> (\<forall>f\<in>set (g l). flabel f = l)"
  shows "remdups (map flabel (concat (map g ls))) = ls"
  using assms
proof (induction ls)
  case Nil
  then show ?case by simp
next
  case (Cons l ls)
  have a: "map flabel (g l) \<noteq> []" and b: "\<forall>x\<in>set (map flabel (g l)). x = l"
    using Cons.prems(2) [of l] by auto
  have "\<forall>m\<in>set ls. \<forall>f\<in>set (g m). flabel f = m"
    using Cons.prems(2) by simp
  then have "set (map flabel (concat (map g ls))) \<subseteq> set ls"
    by auto
  with Cons.prems(1) have c: "l \<notin> set (map flabel (concat (map g ls)))"
    by auto
  have "remdups (map flabel (concat (map g ls))) = ls"
    using Cons by simp
  with remdups_constant_prefix [OF a b c] show ?case by simp
qed

text \<open>
  C3.  The suppression is idempotent: suppressing the result again with the same
  threshold returns it unchanged, for every feature list and every threshold.
\<close>

theorem nms_idempotent: "suppress (suppress F t) t = suppress F t"
proof -
  let ?ls = "remdups (map flabel F)"
  let ?g = "suppress_label t F"
  have d: "distinct ?ls" by simp
  have lab: "\<forall>f\<in>set (?g l). flabel f = l" for l
    using suppress_label_subset [of t F l] by auto
  have ne: "?g l \<noteq> []" if "l \<in> set ?ls" for l
    using that suppress_label_nonempty [of l F t] by simp
  have labels: "remdups (map flabel (suppress F t)) = ?ls"
    unfolding suppress_def
    by (rule remdups_labels_concat [OF d]) (use lab ne in blast)
  have group: "suppress_label t (suppress F t) l = ?g l" if "l \<in> set ?ls" for l
  proof -
    have "filter (\<lambda>f. flabel f = l) (suppress F t) = ?g l"
      unfolding suppress_def
      by (rule filter_label_concat [OF d that]) (use lab in blast)
    then have "suppress_label t (suppress F t) l =
        nms_greedy t (sort_key (\<lambda>f. - fconfidence f) (?g l))"
      by (simp only: suppress_label_def [of t "suppress F t" l])
    then show ?thesis by (simp only: suppress_label_fixed)
  qed
  have "suppress (suppress F t) t = concat (map (suppress_label t (suppress F t)) ?ls)"
    by (simp only: suppress_def [of "suppress F t"] labels)
  also have "map (suppress_label t (suppress F t)) ?ls = map ?g ?ls"
    by (rule map_cong [OF refl]) (rule group)
  finally show ?thesis by (simp only: suppress_def [of F])
qed

lemmas run_defs = process_def collect_def addFeature_def aggregate_def createFeatureFields_def
  suppress_def suppress_label_def iou_def intersection_area_def area_def Let_def

lemma example_features_eval:
  "map (\<lambda>f. (flabel f, fconfidence f)) example_features = [(''car'', 9 / 10), (''car'', 3 / 5)]"
  by (simp add: example_features_def run_defs example_results_def example_run_args_def example_args_def)

lemma example_process_eval:
  "map (\<lambda>f. (flabel f, fconfidence f)) (process example_run_args id example_pm example_results)
     = [(''car'', 9 / 10)]"
  by (simp add: run_defs example_results_def example_run_args_def example_args_def)

theorem nms_idempotent_witness:
  "map (\<lambda>f. (flabel f, fconfidence f)) (suppress (suppress example_features (1 / 2)) (1 / 2)) =
     [(''car'', 9 / 10)]"
proof -
  have "map (\<lambda>f. (flabel f, fconfidence f)) (suppress example_features (1 / 2)) = [(''car'', 9 / 10)]"
    using example_process_eval
    by (simp add: process_def example_features_def example_run_args_def)
  with nms_idempotent [of example_features "1 / 2"] show ?thesis
    by (simp only:)
qed


section \<open>The confidence threshold\<close>

lemma suppress_subset: "set (suppress F t) \<subseteq> set F"
proof
  fix f
  assume "f \<in> set (suppress F t)"
  then obtain l where "f \<in> set (suppress_label t F l)"
    by (auto simp: suppress_def)
  then have "f \<in> set (sort_key (\<lambda>f. - fconfidence f) (filter (\<lambda>f. flabel f = l) F))"
    using nms_greedy_subset unfolding suppress_label_def by blast
  then show "f \<in> set F" by simp
qed

lemma aggregate_fields:
  "fconfidence (aggregate a tr pm w p) = pconfidence p \<and>
   flabel (aggregate a tr pm w p) = plabel p \<and>
   fproducer (aggregate a tr pm w p) = (if producerInfo a then Some pm else None) \<and>
   fwindow (aggregate a tr pm w p) = w"
  by (simp add: aggregate_def createFeatureFields_def Let_def)

lemma collect_invariant:
  assumes "\<And>w p. \<not> pconfidence p < confidence a \<Longrightarrow> P (aggregate a tr pm w p)"
      and "\<forall>f\<in>set acc. P f"
  shows "\<forall>f\<in>set (foldl (\<lambda>fc (w, ps). addFeature a tr pm w ps fc) acc results). P f"
  using assms(2)
proof (induction results arbitrary: acc)
  case Nil
  then show ?case by simp
next
  case (Cons r results)
  obtain w ps where r: "r = (w, ps)" by (cases r)
  have "\<forall>f\<in>set (addFeature a tr pm w ps acc). P f"
    using Cons.prems assms(1) by (auto simp: addFeature_def)
  then show ?case
    using Cons.IH r by simp
qed

lemma process_subset: "set (process a tr pm results) \<subseteq> set (collect a tr pm results)"
  using suppress_subset by (auto simp: process_def Let_def)

text \<open>
  C2.  A prediction below the confidence threshold is not added to the feature
  collection, so no feature of the collection has a confidence below it; the
  suppression only removes features, so the same holds for the final output.
\<close>

theorem confidence_threshold_filter:
  "(pconfidence p < confidence a \<longrightarrow> addFeature a tr pm w [p] fc = fc) \<and>
   (\<forall>f\<in>set (collect a tr pm results). \<not> fconfidence f < confidence a) \<and>
   (\<forall>f\<in>set (process a tr pm results). \<not> fconfidence f < confidence a)"
proof -
  have c: "\<forall>f\<in>set (collect a tr pm results). \<not> fconfidence f < confidence a"
    unfolding collect_def
    by (rule collect_invariant) (simp_all add: aggregate_fields)
  then have "\<forall>f\<in>set (process a tr pm results). \<not> fconfidence f < confidence a"
    using process_subset by blast
  with c show ?thesis
    by (simp add: addFeature_def)
qed

theorem confidence_threshold_filter_witness:
  "addFeature example_run_args id example_pm \<lparr>rx = 0, ry = 0, rwidth = 4, rheight = 10\<rparr>
      [\<lparr>plabel = ''tree'', pconfidence = 2 / 5\<rparr>] [] = [] \<and>
   \<not> fconfidence (hd (process example_run_args id example_pm example_results)) < 1 / 2"
proof -
  have "process example_run_args id example_pm example_results \<noteq> []"
    using example_process_eval by auto
  then have m: "hd (process example_run_args id example_pm example_results)
      \<in> set (process example_run_args id example_pm example_results)"
    by (rule hd_in_set)
  have c: "confidence example_run_args = 1 / 2"
    by (simp add: example_run_args_def)
  have p: "pconfidence \<lparr>plabel = ''tree'', pconfidence = 2 / 5\<rparr> < confidence example_run_args"
    by (simp add: c)
  note t = confidence_threshold_filter [where a = example_run_args and tr = id and pm = example_pm
      and results = example_results and p = "\<lparr>plabel = ''tree'', pconfidence = 2 / 5\<rparr>"
      and w = "\<lparr>rx = 0, ry = 0, rwidth = 4, rheight = 10\<rparr>" and fc = "[]"]
  from t p m show ?thesis
    unfolding c by blast
qed



section \<open>Producer info\<close>

lemma readOutputArgs_producerInfo:
  "readOutputArgs ext vm a = Inr a' \<Longrightarrow> producerInfo a' = present vm ''producer-info''"
  by (auto simp: readOutputArgs_def bindE_def Let_def split: sum.splits option.splits if_splits)

lemma readFeatureDetectionArgs_producerInfo:
  "readFeatureDetectionArgs vm a = Inr a' \<Longrightarrow> producerInfo a' = producerInfo a"
  by (auto simp: readFeatureDetectionArgs_def bindE_def Let_def
           split: sum.splits option.splits if_splits list.splits)

lemma readLoggingArgs_producerInfo:
  "readLoggingArgs ext vm a = Inr a' \<Longrightarrow> producerInfo a' = producerInfo a"
  by (auto simp: readLoggingArgs_def bindE_def Let_def
           split: sum.splits option.splits if_splits list.splits prod.splits)

lemma readArgsOnly_producerInfo:
  assumes "readArgsOnly ext vm a = Inr a'"
  shows "producerInfo a' = present vm ''producer-info''"
proof -
  from assms obtain a3 a4 a5 a6 where
    o: "readOutputArgs ext vm a3 = Inr a4" and
    f: "readFeatureDetectionArgs vm a4 = Inr a5" and
    l: "readLoggingArgs ext vm a5 = Inr a6" and
    q: "producerInfo a' = producerInfo a6"
    by (auto simp: readArgsOnly_def bindE_def Let_def split: sum.splits option.splits if_splits)
  then show ?thesis
    using readOutputArgs_producerInfo readFeatureDetectionArgs_producerInfo
      readLoggingArgs_producerInfo by metis
qed

text \<open>
  C7.  After a successful \<^verbatim>\<open>readArgs\<close> the member \<^verbatim>\<open>producerInfo\<close> is true exactly
  when the option \<^verbatim>\<open>producer-info\<close> is in the variables map.  Every feature of the
  run then carries the same metadata \<open>pm\<close> when the option is present, and none
  when it is absent.
\<close>

theorem producer_info_attached:
  assumes "readArgsOnly ext vm a = Inr a'"
  shows "(producerInfo a' \<longleftrightarrow> present vm ''producer-info'') \<and>
         (\<forall>f\<in>set (process a' tr pm results).
            fproducer f = (if present vm ''producer-info'' then Some pm else None))"
proof -
  have p: "producerInfo a' = present vm ''producer-info''"
    using assms by (rule readArgsOnly_producerInfo)
  have "\<forall>f\<in>set (collect a' tr pm results). fproducer f = (if producerInfo a' then Some pm else None)"
    unfolding collect_def
    by (rule collect_invariant) (simp_all add: aggregate_fields)
  then have "\<forall>f\<in>set (process a' tr pm results).
      fproducer f = (if producerInfo a' then Some pm else None)"
    using process_subset by blast
  with p show ?thesis by simp
qed

theorem producer_info_attached_witness:
  "fproducer (hd (process (projr (readArgsOnly example_ext example_vm example_args))
      id example_pm example_results)) = Some example_pm \<and>
   fproducer (hd (process
      (projr (readArgsOnly example_ext (example_vm(''producer-info'' := None)) example_args))
      id example_pm example_results)) = None"
proof -
  let ?vm = "example_vm(''producer-info'' := None)"
  let ?a = "projr (readArgsOnly example_ext example_vm example_args)"
  let ?b = "projr (readArgsOnly example_ext ?vm example_args)"
  have ra: "readArgsOnly example_ext example_vm example_args = Inr ?a"
    by (simp add: reader_defs example_defs)
  have rb: "readArgsOnly example_ext ?vm example_args = Inr ?b"
    by (simp add: reader_defs example_defs)
  have na: "process ?a id example_pm example_results \<noteq> []"
    by (simp add: reader_defs example_defs run_defs example_results_def)
  have nb: "process ?b id example_pm example_results \<noteq> []"
    by (simp add: reader_defs example_defs run_defs example_results_def)
  have pa: "present example_vm ''producer-info''" and pb: "\<not> present ?vm ''producer-info''"
    by (simp_all add: present_def example_vm_def)
  from producer_info_attached [OF ra, of id example_pm example_results] hd_in_set [OF na] pa
  have "fproducer (hd (process ?a id example_pm example_results)) = Some example_pm"
    by simp
  moreover
  from producer_info_attached [OF rb, of id example_pm example_results] hd_in_set [OF nb] pb
  have "fproducer (hd (process ?b id example_pm example_results)) = None"
    by simp
  ultimately show ?thesis by blast
qed

section \<open>The default step size\<close>

lemma readFeatureDetectionArgs_stepSize:
  assumes "readFeatureDetectionArgs vm a = Inr a'"
  shows "stepSize a' = (case vm ''step-size'' of None \<Rightarrow> None
      | Some v \<Rightarrow> (case val v of VPoint x y \<Rightarrow> Some (x, y) | _ \<Rightarrow> None))"
  using assms
  by (auto simp: readFeatureDetectionArgs_def bindE_def Let_def readOptional_def
           split: sum.splits option.splits if_splits list.splits opt_value.splits)

text \<open>
  C4.  After \<^verbatim>\<open>readFeatureDetectionArgs\<close>: when the option \<^verbatim>\<open>step-size\<close> is absent,
  the step of \<^verbatim>\<open>calcSizes\<close> is the base-two logarithm of the window's largest
  dimension, the same in both dimensions; a supplied step size is the step as it
  is.  This holds for every configuration that \<^verbatim>\<open>calcSizes\<close> accepts; it rejects
  a window or a step that is not positive, also a default step that is not
  positive (a window of largest dimension 1).
\<close>

theorem step_size_default:
  assumes "readFeatureDetectionArgs vm a = Inr a'"
  shows "(vm ''step-size'' = None \<and> 0 < w \<and> 0 < h \<and> 1 < max w h \<longrightarrow>
            calcSizes a' (w, h) =
              Inr ((w, h), (log 2 (real_of_int (max w h)), log 2 (real_of_int (max w h))))) \<and>
         (vm ''step-size'' = Some v \<and> val v = VPoint x y \<and> 0 < w \<and> 0 < h \<and> 0 < x \<and> 0 < y \<longrightarrow>
            calcSizes a' (w, h) = Inr ((w, h), (real_of_int x, real_of_int y))) \<and>
         (vm ''step-size'' = None \<and> calcSizes a' (w, h) = Inr (win, step) \<longrightarrow>
            win = (w, h) \<and> step = (log 2 (real_of_int (max w h)), log 2 (real_of_int (max w h))) \<and>
            0 < w \<and> 0 < h \<and> 0 < fst step \<and> 0 < snd step) \<and>
         (vm ''step-size'' = Some v \<and> val v = VPoint x y \<and> calcSizes a' (w, h) = Inr (win, step) \<longrightarrow>
            win = (w, h) \<and> step = (real_of_int x, real_of_int y) \<and>
            0 < w \<and> 0 < h \<and> 0 < x \<and> 0 < y) \<and>
         (w \<le> 0 \<or> h \<le> 0 \<longrightarrow> calcSizes a' (w, h) = Inl InvalidConfiguration) \<and>
         (vm ''step-size'' = None \<and> max w h \<le> 1 \<longrightarrow> calcSizes a' (w, h) = Inl InvalidConfiguration) \<and>
         (vm ''step-size'' = Some v \<and> val v = VPoint x y \<and> (x \<le> 0 \<or> y \<le> 0) \<longrightarrow>
            calcSizes a' (w, h) = Inl InvalidConfiguration)"
proof -
  note st = readFeatureDetectionArgs_stepSize [OF assms]
  have pos: "0 < log 2 (real_of_int (max w h))" if "1 < max w h"
    using that by simp
  have nonpos: "log 2 (real_of_int (max w h)) \<le> 0" if "0 < w" "0 < h" "max w h \<le> 1"
  proof -
    from that have "max w h = 1" by linarith
    then show ?thesis by simp
  qed
  have big: "1 < max w h" if "0 < w" "0 < h" "0 < log 2 (real_of_int (max w h))"
  proof (rule ccontr)
    assume "\<not> 1 < max w h"
    then have "max w h \<le> 1" by linarith
    from nonpos [OF that(1,2) this] that(3) show False by simp
  qed
  show ?thesis
  proof (cases "vm ''step-size''")
    case None
    with st have s: "stepSize a' = None" by simp
    show ?thesis
      using None pos nonpos big
      by (auto simp: calcSizes_def s Let_def)
  next
    case (Some u)
    show ?thesis
    proof (cases "val u")
      case (VPoint p q)
      with st Some have s: "stepSize a' = Some (p, q)" by simp
      show ?thesis
        using Some VPoint
        by (auto simp: calcSizes_def s Let_def)
    qed (use st Some in \<open>auto simp: calcSizes_def Let_def\<close>)
  qed
qed


theorem step_size_default_witness:
  "calcSizes (projr (readFeatureDetectionArgs example_vm example_args)) (256, 200) =
     Inr ((256, 200), (8, 8)) \<and>
   calcSizes (projr (readFeatureDetectionArgs example_vm example_args)) (200, 150) =
     Inr ((200, 150), (log 2 200, log 2 200)) \<and>
   7 < log 2 (200::real) \<and> log 2 (200::real) < 8 \<and>
   calcSizes (projr (readFeatureDetectionArgs example_vm example_args)) (1, 1) =
     Inl InvalidConfiguration \<and>
   calcSizes (projr (readFeatureDetectionArgs example_vm example_args)) (0, 5) =
     Inl InvalidConfiguration \<and>
   calcSizes (projr (readFeatureDetectionArgs
      (example_vm(''step-size'' \<mapsto> explicit (VPoint 16 32))) example_args)) (256, 200) =
     Inr ((256, 200), (16, 32)) \<and>
   calcSizes (projr (readFeatureDetectionArgs
      (example_vm(''step-size'' \<mapsto> explicit (VPoint 0 (- 5)))) example_args)) (256, 200) =
     Inl InvalidConfiguration"
proof -
  let ?vb = "example_vm(''step-size'' \<mapsto> explicit (VPoint 16 32))"
  let ?vc = "example_vm(''step-size'' \<mapsto> explicit (VPoint 0 (- 5)))"
  let ?a = "projr (readFeatureDetectionArgs example_vm example_args)"
  let ?b = "projr (readFeatureDetectionArgs ?vb example_args)"
  let ?c = "projr (readFeatureDetectionArgs ?vc example_args)"
  have ra: "readFeatureDetectionArgs example_vm example_args = Inr ?a"
    by (simp add: reader_defs example_defs)
  have rb: "readFeatureDetectionArgs ?vb example_args = Inr ?b"
    by (simp add: reader_defs example_defs)
  have rc: "readFeatureDetectionArgs ?vc example_args = Inr ?c"
    by (simp add: reader_defs example_defs)
  have "(256::real) = 2 ^ 8" by simp
  then have l: "log 2 (256::real) = 8"
    by (simp only: log_pow_cancel)
  have b: "7 < log 2 (200::real) \<and> log 2 (200::real) < 8"
    by (simp add: less_log_iff log_less_iff)
  have va: "example_vm ''step-size'' = None"
    by (simp add: example_vm_def)
  have vb: "?vb ''step-size'' = Some (explicit (VPoint 16 32)) \<and>
      val (explicit (VPoint 16 32)) = VPoint 16 32"
    by (simp add: explicit_def)
  have vc: "?vc ''step-size'' = Some (explicit (VPoint 0 (- 5))) \<and>
      val (explicit (VPoint 0 (- 5))) = VPoint 0 (- 5)"
    by (simp add: explicit_def)
  from step_size_default [OF ra, where w = 256 and h = 200, THEN conjunct1] va l
  have 1: "calcSizes ?a (256, 200) = Inr ((256, 200), (8, 8))"
    by simp
  from step_size_default [OF ra, where w = 200 and h = 150, THEN conjunct1] va
  have 2: "calcSizes ?a (200, 150) = Inr ((200, 150), (log 2 200, log 2 200))"
    by simp
  from step_size_default [OF ra, where w = 1 and h = 1, THEN conjunct2, THEN conjunct2, THEN conjunct2, THEN conjunct2, THEN conjunct2, THEN conjunct1] va
  have 3: "calcSizes ?a (1, 1) = Inl InvalidConfiguration"
    by simp
  from step_size_default [OF ra, where w = 0 and h = 5, THEN conjunct2, THEN conjunct2, THEN conjunct2, THEN conjunct2, THEN conjunct1]
  have 4: "calcSizes ?a (0, 5) = Inl InvalidConfiguration"
    by simp
  from step_size_default [OF rb, where w = 256 and h = 200 and v = "explicit (VPoint 16 32)"
      and x = 16 and y = 32, THEN conjunct2, THEN conjunct1] vb
  have 5: "calcSizes ?b (256, 200) = Inr ((256, 200), (16, 32))"
    by simp
  from step_size_default [OF rc, where w = 256 and h = 200 and v = "explicit (VPoint 0 (- 5))"
      and x = 0 and y = "- 5", THEN conjunct2, THEN conjunct2, THEN conjunct2, THEN conjunct2, THEN conjunct2, THEN conjunct2] vc
  have 6: "calcSizes ?c (256, 200) = Inl InvalidConfiguration"
    by simp
  from 1 2 3 4 5 6 b show ?thesis by blast
qed

end
